theory Spec2Isabelle
  imports Complex_Main
begin

section \<open>Data model and operations of the ingestion pipeline\<close>

text \<open>
  The development embeds the Python sources of the pipeline: the news chunker
  (\<^verbatim>\<open>kafka/consumers/news_consumer.py\<close>), the market normalisers and the consumer
  loops (\<^verbatim>\<open>kafka/consumers/markets_consumer.py\<close>), the producers' poll cycles
  (\<^verbatim>\<open>kafka/producers/*.py\<close>), the series cache of the scraper
  (\<^verbatim>\<open>model/scripts/scrapeAllCategories.py\<close>) and the Edge row
  (\<^verbatim>\<open>app/models/edge.py\<close>).  Exceptions are values, loops are recursive functions,
  and calls to external services are recorded as effects or taken as parameters.
\<close>

subsection \<open>Python slicing\<close>

text \<open>
  \<^verbatim>\<open>xs[i:j]\<close> with step 1 on a sequence of length \<open>n\<close>: a negative index counts
  from the end, and both indices are clamped to \<open>0..n\<close>.  A Python \<^verbatim>\<open>str\<close> is a sequence
  of code points; the chunker only slices and measures it, so the element type is left
  polymorphic.
\<close>

definition py_slice :: "'a list \<Rightarrow> int \<Rightarrow> int \<Rightarrow> 'a list" where
  "py_slice xs i j =
     (let n = int (length xs);
          lo = (if i < 0 then max (i + n) 0 else min i n);
          hi = (if j < 0 then max (j + n) 0 else min j n)
      in if lo < hi then take (nat (hi - lo)) (drop (nat lo) xs) else [])"

text \<open>\<^verbatim>\<open>xs[-k:]\<close>, \<^verbatim>\<open>xs[:k]\<close> and \<^verbatim>\<open>xs[k:]\<close> for a literal \<open>k \<ge> 0\<close>.\<close>

definition py_last :: "nat \<Rightarrow> 'a list \<Rightarrow> 'a list" where
  "py_last k xs = py_slice xs (- int k) (int (length xs))"

definition py_first :: "nat \<Rightarrow> 'a list \<Rightarrow> 'a list" where
  "py_first k xs = py_slice xs 0 (int k)"

definition py_from :: "nat \<Rightarrow> 'a list \<Rightarrow> 'a list" where
  "py_from k xs = py_slice xs (int k) (int (length xs))"

subsection \<open>The chunker: \<^verbatim>\<open>chunk_text\<close> of news_consumer.py\<close>

text \<open>
  \<^verbatim>\<open>
  CHUNK_SIZE = 2000
  def chunk_text(text, chunk_size=CHUNK_SIZE):
      overlap = 200
      chunks = []
      start = 0
      while start < len(text):
          end = min(start + chunk_size, len(text))
          chunks.append(text[start:end])
          start += chunk_size - overlap
      return chunks
  \<close>
  The loop need not end, so it is a partial function: \<open>None\<close> is "never returns".
\<close>

definition CHUNK_SIZE :: int where
  "CHUNK_SIZE = 2000"

definition overlap :: int where
  "overlap = 200"

partial_function (option) chunk_loop ::
  "'a list \<Rightarrow> int \<Rightarrow> int \<Rightarrow> 'a list list \<Rightarrow> 'a list list option" where
  "chunk_loop text chunk_size start chunks =
     (if start < int (length text)
      then chunk_loop text chunk_size (start + (chunk_size - overlap))
             (chunks @ [py_slice text start (min (start + chunk_size) (int (length text)))])
      else Some chunks)"

definition chunk_text :: "'a list \<Rightarrow> int \<Rightarrow> 'a list list option" where
  "chunk_text text chunk_size = chunk_loop text chunk_size 0 []"

subsection \<open>Python values decoded from JSON\<close>

text \<open>
  A Python \<^verbatim>\<open>float\<close> is a finite number, an infinity or a nan.  A finite float is
  modelled by the real number it denotes.  Each operation that produces a float rounds its
  exact result to the nearest double (\<open>round_double\<close> below); a result at or beyond
  \<open>DBL_LIMIT\<close> is an infinity, or \<^verbatim>\<open>OverflowError\<close> where Python raises it.  The two
  zeros are not told apart.
\<close>

datatype pyfloat = Fin real | PInf | NInf | NaN

text \<open>
  The value of \<^verbatim>\<open>json.loads\<close>: \<^verbatim>\<open>None\<close>, \<^verbatim>\<open>bool\<close>, \<^verbatim>\<open>int\<close> (unbounded), \<^verbatim>\<open>float\<close>,
  \<^verbatim>\<open>str\<close>, \<^verbatim>\<open>list\<close> and \<^verbatim>\<open>dict\<close> with string keys.  A \<^verbatim>\<open>dict\<close> is an association
  list read with \<open>map_of\<close>; a string is the list of its code points, for the code points
  below 256.
\<close>

datatype json =
    JNull
  | JBool bool
  | JInt int
  | JFloat pyfloat
  | JStr string
  | JList "json list"
  | JDict "(string \<times> json) list"

text \<open>The exceptions that the modelled code can raise; a result is an exception or a value.\<close>

datatype pyexc =
    KeyError
  | TypeError
  | ValueError
  | IndexError
  | AttributeError
  | OverflowError
  | JSONDecodeError
  | UnicodeDecodeError
  | KafkaException
  | HTTPStatusError
  | OtherException
  | RecursionError

definition bind_r :: "pyexc + 'a \<Rightarrow> ('a \<Rightarrow> pyexc + 'b) \<Rightarrow> pyexc + 'b" where
  "bind_r r f = (case r of Inl e \<Rightarrow> Inl e | Inr v \<Rightarrow> f v)"

text \<open>
  \<^verbatim>\<open>try: return <value> except (E1, ..., En): log.warning(...); return None\<close>:
  a handled exception becomes the value \<^verbatim>\<open>None\<close>, any other exception propagates.
\<close>

definition try_except_None :: "pyexc list \<Rightarrow> pyexc + 'a \<Rightarrow> pyexc + 'a option" where
  "try_except_None handled r =
     (case r of
        Inl e \<Rightarrow> if e \<in> set handled then Inr None else Inl e
      | Inr v \<Rightarrow> Inr (Some v))"

text \<open>\<^verbatim>\<open>d.get(key, default)\<close>; only a \<^verbatim>\<open>dict\<close> has the method.\<close>

definition lookup_default :: "(string \<times> json) list \<Rightarrow> string \<Rightarrow> json \<Rightarrow> json" where
  "lookup_default kv key dflt = (case map_of kv key of None \<Rightarrow> dflt | Some v \<Rightarrow> v)"

definition py_get :: "json \<Rightarrow> string \<Rightarrow> json \<Rightarrow> pyexc + json" where
  "py_get d key dflt =
     (case d of
        JDict kv \<Rightarrow> Inr (lookup_default kv key dflt)
      | _ \<Rightarrow> Inl AttributeError)"

text \<open>
  \<^verbatim>\<open>d["key"]\<close> with a string key: \<^verbatim>\<open>KeyError\<close> on a \<^verbatim>\<open>dict\<close> without the key,
  \<^verbatim>\<open>TypeError\<close> on every other value (a list or string index must be an integer, the
  other values are not subscriptable).
\<close>

definition py_item_str :: "json \<Rightarrow> string \<Rightarrow> pyexc + json" where
  "py_item_str d key =
     (case d of
        JDict kv \<Rightarrow> (case map_of kv key of None \<Rightarrow> Inl KeyError | Some v \<Rightarrow> Inr v)
      | _ \<Rightarrow> Inl TypeError)"

text \<open>
  \<^verbatim>\<open>v[0]\<close>: the first element of a list, the first character of a string (as a string),
  \<^verbatim>\<open>IndexError\<close> when they are empty, \<^verbatim>\<open>KeyError\<close> on a \<^verbatim>\<open>dict\<close> (its keys are
  strings), \<^verbatim>\<open>TypeError\<close> on the values that are not subscriptable.
\<close>

definition py_item0 :: "json \<Rightarrow> pyexc + json" where
  "py_item0 v =
     (case v of
        JList xs \<Rightarrow> (case xs of [] \<Rightarrow> Inl IndexError | x # _ \<Rightarrow> Inr x)
      | JStr s \<Rightarrow> (case s of [] \<Rightarrow> Inl IndexError | c # _ \<Rightarrow> Inr (JStr [c]))
      | JDict kv \<Rightarrow> Inl KeyError
      | _ \<Rightarrow> Inl TypeError)"

subsection \<open>Numbers\<close>

text \<open>
  The least magnitude that does not round to a finite double: halfway between the largest
  double \<open>2^1024 - 2^971\<close> and \<open>2^1024\<close>.
\<close>

definition DBL_LIMIT :: real where
  "DBL_LIMIT = 2 ^ 1024 - 2 ^ 970"

text \<open>
  Rounding to the nearest double, ties to the even significand (IEEE 754 binary64): a
  double is an integer multiple of the unit in the last place \<open>2^(e - 52)\<close>, where \<open>e\<close> is
  the binary exponent of the number and at least \<open>-1022\<close> (below that the doubles are
  subnormal and equally spaced).
\<close>

definition round_half_even :: "real \<Rightarrow> int" where
  "round_half_even q =
     (let f = \<lfloor>q\<rfloor>; d = q - of_int f
      in if d < 1 / 2 then f else if 1 / 2 < d then f + 1 else if even f then f else f + 1)"

definition dbl_exponent :: "real \<Rightarrow> int" where
  "dbl_exponent x = max \<lfloor>log 2 \<bar>x\<bar>\<rfloor> (- 1022)"

definition dbl_ulp :: "real \<Rightarrow> real" where
  "dbl_ulp x = 2 powr (of_int (dbl_exponent x) - 52)"

definition round_double :: "real \<Rightarrow> real" where
  "round_double x = (if x = 0 then 0 else of_int (round_half_even (x / dbl_ulp x)) * dbl_ulp x)"

text \<open>The float of an exact result of float arithmetic or of parsing.\<close>

definition to_float :: "real \<Rightarrow> pyfloat" where
  "to_float r =
     (if DBL_LIMIT \<le> r then PInf else if r \<le> - DBL_LIMIT then NInf else Fin (round_double r))"

text \<open>Conversion of an \<^verbatim>\<open>int\<close> to \<^verbatim>\<open>float\<close> raises where the integer is out of range.\<close>

definition float_of_int :: "int \<Rightarrow> pyexc + pyfloat" where
  "float_of_int n =
     (if DBL_LIMIT \<le> \<bar>real_of_int n\<bar> then Inl OverflowError
      else Inr (Fin (round_double (real_of_int n))))"

fun float_add :: "pyfloat \<Rightarrow> pyfloat \<Rightarrow> pyfloat" where
  "float_add NaN _ = NaN"
| "float_add _ NaN = NaN"
| "float_add PInf NInf = NaN"
| "float_add NInf PInf = NaN"
| "float_add PInf _ = PInf"
| "float_add _ PInf = PInf"
| "float_add NInf _ = NInf"
| "float_add _ NInf = NInf"
| "float_add (Fin a) (Fin b) = to_float (a + b)"

text \<open>The numeric view of a value: \<^verbatim>\<open>bool\<close> is a subclass of \<^verbatim>\<open>int\<close>.\<close>

fun num_of :: "json \<Rightarrow> (int + pyfloat) option" where
  "num_of (JBool b) = Some (Inl (if b then 1 else 0))"
| "num_of (JInt n) = Some (Inl n)"
| "num_of (JFloat f) = Some (Inr f)"
| "num_of _ = None"

definition is_number :: "json \<Rightarrow> bool" where
  "is_number v = (num_of v \<noteq> None)"

text \<open>
  \<^verbatim>\<open>a + b\<close>: numbers add (an \<^verbatim>\<open>int\<close> meeting a \<^verbatim>\<open>float\<close> is converted first), strings
  and lists concatenate, everything else is a \<^verbatim>\<open>TypeError\<close>.
\<close>

definition py_add :: "json \<Rightarrow> json \<Rightarrow> pyexc + json" where
  "py_add a b =
     (case (num_of a, num_of b) of
        (Some (Inl x), Some (Inl y)) \<Rightarrow> Inr (JInt (x + y))
      | (Some (Inl x), Some (Inr g)) \<Rightarrow> bind_r (float_of_int x) (\<lambda>f. Inr (JFloat (float_add f g)))
      | (Some (Inr f), Some (Inl y)) \<Rightarrow> bind_r (float_of_int y) (\<lambda>g. Inr (JFloat (float_add f g)))
      | (Some (Inr f), Some (Inr g)) \<Rightarrow> Inr (JFloat (float_add f g))
      | _ \<Rightarrow>
        (case (a, b) of
           (JStr s, JStr t) \<Rightarrow> Inr (JStr (s @ t))
         | (JList xs, JList ys) \<Rightarrow> Inr (JList (xs @ ys))
         | _ \<Rightarrow> Inl TypeError))"

text \<open>
  \<^verbatim>\<open>a / 200\<close>: true division.  The quotient of two integers is rounded once and raises
  \<^verbatim>\<open>OverflowError\<close> when it is out of range; a float is divided as a float.
\<close>

definition py_truediv_200 :: "json \<Rightarrow> pyexc + pyfloat" where
  "py_truediv_200 a =
     (case num_of a of
        Some (Inl x) \<Rightarrow>
          if DBL_LIMIT \<le> \<bar>real_of_int x / 200\<bar> then Inl OverflowError
          else Inr (Fin (round_double (real_of_int x / 200)))
      | Some (Inr f) \<Rightarrow> Inr (case f of Fin r \<Rightarrow> Fin (round_double (r / 200)) | _ \<Rightarrow> f)
      | None \<Rightarrow> Inl TypeError)"

subsection \<open>\<^verbatim>\<open>float(str)\<close>\<close>

text \<open>
  \<^verbatim>\<open>float(s)\<close> strips white space, reads an optional sign and then either a spelling of
  infinity or nan (in any case) or a decimal number
  \<^verbatim>\<open>digitpart ["." [digitpart]] [exponent] | "." digitpart [exponent]\<close>, where a
  \<^verbatim>\<open>digitpart\<close> is a run of digits with single underscores between digits.  The white
  space that is stripped is the ASCII white space (tab to carriage return, and the space)
  and, of the code points from 128 to 255, the next-line control and the no-break space,
  which \<^verbatim>\<open>float\<close> turns into spaces first; the separators U+001C to U+001F are not
  stripped.  The value of a decimal number is rounded to the nearest double.
\<close>

definition is_space :: "char \<Rightarrow> bool" where
  "is_space c = (let n = of_char c :: nat
                 in (9 \<le> n \<and> n \<le> 13) \<or> n = 32 \<or> n = 133 \<or> n = 160)"

definition strip :: "string \<Rightarrow> string" where
  "strip s = rev (dropWhile is_space (rev (dropWhile is_space s)))"

definition is_ascii_digit :: "char \<Rightarrow> bool" where
  "is_ascii_digit c = (let n = of_char c :: nat in 48 \<le> n \<and> n \<le> 57)"

definition digit_val :: "char \<Rightarrow> nat" where
  "digit_val c = of_char c - 48"

definition lower :: "char \<Rightarrow> char" where
  "lower c = (let n = of_char c :: nat in if 65 \<le> n \<and> n \<le> 90 then char_of (n + 32) else c)"

text \<open>A well-formed \<^verbatim>\<open>digitpart\<close>: digits, with underscores only between two digits.\<close>

fun digitpart_ok :: "string \<Rightarrow> bool" where
  "digitpart_ok [] = False"
| "digitpart_ok [c] = is_ascii_digit c"
| "digitpart_ok (c # d # cs) =
     (is_ascii_digit c \<and>
      (if d = CHR ''_'' then cs \<noteq> [] \<and> digitpart_ok cs else digitpart_ok (d # cs)))"

definition digits_of :: "string \<Rightarrow> nat list" where
  "digits_of s = map digit_val (filter is_ascii_digit s)"

definition nat_of_digits :: "nat list \<Rightarrow> nat" where
  "nat_of_digits ds = foldl (\<lambda>acc d. 10 * acc + d) 0 ds"

definition is_digitpart_char :: "char \<Rightarrow> bool" where
  "is_digitpart_char c = (is_ascii_digit c \<or> c = CHR ''_'')"

text \<open>The optional exponent: \<open>None\<close> is a syntax error, \<open>Some e\<close> the power of ten.\<close>

definition parse_exponent :: "string \<Rightarrow> int option" where
  "parse_exponent s =
     (case s of
        [] \<Rightarrow> Some 0
      | c # r \<Rightarrow>
          if c = CHR ''e'' \<or> c = CHR ''E'' then
            (let (neg, ds) = (case r of
                                x # r' \<Rightarrow> if x = CHR ''-'' then (True, r')
                                           else if x = CHR ''+'' then (False, r') else (False, r)
                              | [] \<Rightarrow> (False, r))
             in if digitpart_ok ds
                then Some ((if neg then -1 else 1) * int (nat_of_digits (digits_of ds)))
                else None)
          else None)"

text \<open>The unsigned decimal number, as the exact real it denotes.\<close>

definition parse_decimal :: "string \<Rightarrow> real option" where
  "parse_decimal s =
     (let ip = takeWhile is_digitpart_char s;
          r1 = dropWhile is_digitpart_char s;
          (dot, fp, r2) =
            (case r1 of
               c # r \<Rightarrow> if c = CHR ''.''
                          then (True, takeWhile is_digitpart_char r, dropWhile is_digitpart_char r)
                          else (False, [], r1)
             | [] \<Rightarrow> (False, [], r1))
      in if (ip = [] \<and> fp = []) \<or> (ip \<noteq> [] \<and> \<not> digitpart_ok ip) \<or> (fp \<noteq> [] \<and> \<not> digitpart_ok fp)
         then None
         else
           (case parse_exponent r2 of
              None \<Rightarrow> None
            | Some e \<Rightarrow>
                let m = real (nat_of_digits (digits_of ip @ digits_of fp));
                    k = e - int (length (digits_of fp))
                in Some (if 0 \<le> k then m * 10 ^ nat k else m / 10 ^ nat (- k))))"

definition float_of_str :: "string \<Rightarrow> pyfloat option" where
  "float_of_str s =
     (let t = strip s;
          (neg, u) = (case t of
                        c # r \<Rightarrow> if c = CHR ''-'' then (True, r)
                                   else if c = CHR ''+'' then (False, r) else (False, t)
                      | [] \<Rightarrow> (False, t));
          l = map lower u
      in if l = ''inf'' \<or> l = ''infinity'' then Some (if neg then NInf else PInf)
         else if l = ''nan'' then Some NaN
         else (case parse_decimal u of
                 None \<Rightarrow> None
               | Some r \<Rightarrow> Some (to_float (if neg then - r else r))))"

text \<open>
  \<^verbatim>\<open>float(v)\<close>: a number is converted, a string is parsed (\<^verbatim>\<open>ValueError\<close> when it does
  not parse), every other value is a \<^verbatim>\<open>TypeError\<close>.
\<close>

definition py_float :: "json \<Rightarrow> pyexc + pyfloat" where
  "py_float v =
     (case v of
        JBool b \<Rightarrow> float_of_int (if b then 1 else 0)
      | JInt n \<Rightarrow> float_of_int n
      | JFloat f \<Rightarrow> Inr f
      | JStr s \<Rightarrow> (case float_of_str s of None \<Rightarrow> Inl ValueError | Some f \<Rightarrow> Inr f)
      | _ \<Rightarrow> Inl TypeError)"

text \<open>\<^verbatim>\<open>float(v)\<close> raises one of the exceptions that the normalisers handle.\<close>

definition float_rejected :: "json \<Rightarrow> bool" where
  "float_rejected v = (py_float v = Inl TypeError \<or> py_float v = Inl ValueError)"


subsection \<open>The normalisers of markets_consumer.py\<close>

text \<open>
  The dictionary that a normaliser returns.  The fields copied from the raw payload keep
  whatever value the payload has; \<^verbatim>\<open>yes_price\<close> is computed and is a float.
\<close>

record normalized =
  platform :: string
  external_id :: json
  title :: json
  category :: json
  close_time :: json
  yes_price :: pyfloat
  volume :: json
  is_open :: json

text \<open>
  \<^verbatim>\<open>
  def normalize_kalshi(raw):
      try:
          return {
              "platform": "kalshi",
              "external_id": raw["ticker"],
              "title": raw.get("title", ""),
              "category": raw.get("category", ""),
              "close_time": raw.get("close_time"),
              "yes_price": (raw.get("yes_bid", 0) + raw.get("yes_ask", 0)) / 200,
              "volume": raw.get("volume", 0),
              "is_open": raw.get("status") == "open",
          }
      except (KeyError, TypeError) as e:
          log.warning(...)
          return None
  \<close>
  The entries are evaluated in the order written.
\<close>

definition normalize_kalshi :: "json \<Rightarrow> pyexc + normalized option" where
  "normalize_kalshi raw =
     try_except_None [KeyError, TypeError]
       (bind_r (py_item_str raw ''ticker'') (\<lambda>ticker.
        bind_r (py_get raw ''title'' (JStr '''')) (\<lambda>ttl.
        bind_r (py_get raw ''category'' (JStr '''')) (\<lambda>cat.
        bind_r (py_get raw ''close_time'' JNull) (\<lambda>ct.
        bind_r (py_get raw ''yes_bid'' (JInt 0)) (\<lambda>bid.
        bind_r (py_get raw ''yes_ask'' (JInt 0)) (\<lambda>ask.
        bind_r (py_add bid ask) (\<lambda>total.
        bind_r (py_truediv_200 total) (\<lambda>price.
        bind_r (py_get raw ''volume'' (JInt 0)) (\<lambda>vol.
        bind_r (py_get raw ''status'' JNull) (\<lambda>status.
        Inr \<lparr> platform = ''kalshi'', external_id = ticker, title = ttl, category = cat,
              close_time = ct, yes_price = price, volume = vol,
              is_open = JBool (status = JStr ''open'') \<rparr>)))))))))))"

text \<open>
  \<^verbatim>\<open>
  def normalize_polymarket(raw):
      try:
          return {
              "platform": "polymarket",
              "external_id": raw.get("conditionId", raw.get("id", "")),
              "title": raw.get("question", raw.get("title", "")),
              "category": raw.get("category", ""),
              "close_time": raw.get("endDate"),
              "yes_price": float(raw.get("outcomePrices", ["0"])[0]),
              "volume": float(raw.get("volume", 0)),
              "is_open": raw.get("active", False),
          }
      except (KeyError, TypeError, ValueError) as e:
          log.warning(...)
          return None
  \<close>
\<close>

definition normalize_polymarket :: "json \<Rightarrow> pyexc + normalized option" where
  "normalize_polymarket raw =
     try_except_None [KeyError, TypeError, ValueError]
       (bind_r (py_get raw ''id'' (JStr '''')) (\<lambda>id_dflt.
        bind_r (py_get raw ''conditionId'' id_dflt) (\<lambda>ext.
        bind_r (py_get raw ''title'' (JStr '''')) (\<lambda>title_dflt.
        bind_r (py_get raw ''question'' title_dflt) (\<lambda>ttl.
        bind_r (py_get raw ''category'' (JStr '''')) (\<lambda>cat.
        bind_r (py_get raw ''endDate'' JNull) (\<lambda>ct.
        bind_r (py_get raw ''outcomePrices'' (JList [JStr ''0''])) (\<lambda>prices.
        bind_r (py_item0 prices) (\<lambda>first.
        bind_r (py_float first) (\<lambda>price.
        bind_r (py_get raw ''volume'' (JInt 0)) (\<lambda>vol_raw.
        bind_r (py_float vol_raw) (\<lambda>vol.
        bind_r (py_get raw ''active'' (JBool False)) (\<lambda>active.
        Inr \<lparr> platform = ''polymarket'', external_id = ext, title = ttl, category = cat,
              close_time = ct, yes_price = price, volume = JFloat vol,
              is_open = active \<rparr>)))))))))))))"

subsection \<open>The markets table and \<^verbatim>\<open>upsert_market\<close>\<close>

text \<open>
  A row of the table \<^verbatim>\<open>markets\<close> (app/models/market.py); \<^verbatim>\<open>external_id\<close> is declared
  unique.  The timestamps are left out.
\<close>

record market_row =
  m_id :: int
  m_platform :: string
  m_external_id :: json
  m_title :: json
  m_category :: json
  m_close_time :: json
  m_yes_price :: "pyfloat option"
  m_volume :: json
  m_is_open :: bool

type_synonym markets_table = "market_row list"

text \<open>The calls that a consumer makes on the logger and on the Kafka client.\<close>

record message =
  topic :: string
  partition :: nat
  offset :: nat
  payload_value :: "pyexc + json"

datatype cevent =
    LogDebugUpsert string json
  | LogWarningNormalize string
  | LogErrorDecode string
  | LogDebugEOF
  | Commit message
  | CloseConsumer
  | EmbedCall string
  | LogDebugStore json string nat
  | LogDebugNoContent json
  | LogInfoProcessed

text \<open>
  The two exceptions of the \<^verbatim>\<open>except\<close> clause around decoding, and the events that are
  commits.
\<close>

definition decode_error :: "pyexc \<Rightarrow> bool" where
  "decode_error e = (e = JSONDecodeError \<or> e = UnicodeDecodeError)"

definition is_commit :: "cevent \<Rightarrow> bool" where
  "is_commit ev = (case ev of Commit m \<Rightarrow> True | _ \<Rightarrow> False)"

text \<open>
  \<^verbatim>\<open>
  def upsert_market(normalized):
      """Insert or update a market record in PostgreSQL. TODO: Implement ..."""
      log.debug(f"TODO upsert: {normalized['platform']} / {normalized['external_id']}")
  \<close>
  The body logs and does nothing else: the table is returned as it was.
\<close>

definition upsert_market :: "normalized \<Rightarrow> markets_table \<Rightarrow> markets_table \<times> cevent list" where
  "upsert_market n tbl = (tbl, [LogDebugUpsert (platform n) (external_id n)])"

definition rows_keyed :: "json \<Rightarrow> markets_table \<Rightarrow> market_row list" where
  "rows_keyed ext tbl = filter (\<lambda>r. m_external_id r = ext) tbl"

subsection \<open>The loop of the markets consumer\<close>

text \<open>
  What \<^verbatim>\<open>consumer.poll\<close> returns in one iteration: nothing, an end-of-partition
  notice, another broker error, or a message.  The field \<open>payload_value\<close> of a message is
  the outcome of \<^verbatim>\<open>json.loads(msg.value().decode("utf-8"))\<close> on its bytes: the decoded
  value, or the exception raised.  The exceptions are \<^verbatim>\<open>UnicodeDecodeError\<close> for
  bytes that are not UTF-8, \<^verbatim>\<open>JSONDecodeError\<close> for a text that is not JSON,
  \<^verbatim>\<open>RecursionError\<close> for a text nested deeper than the interpreter's recursion limit
  (such as 200000 opening brackets), \<^verbatim>\<open>ValueError\<close> for an integer literal of more than
  4300 digits, and \<^verbatim>\<open>AttributeError\<close> for a message without a value.
\<close>

datatype poll_result = NoMessage | PartitionEOF | BrokerError | Msg message

datatype outcome = Normal | Raised pyexc

text \<open>
  The body of the loop for a message (lines 161 to 183 of markets_consumer.py): decode,
  normalise by topic, upsert when the normaliser returned a dictionary, commit.  It returns
  the table, the calls made, in order, and whether the loop goes on (\<open>Normal\<close>) or an
  exception leaves it.  The broker's answers to \<^verbatim>\<open>commit\<close> are not modelled: a commit is
  the call.
\<close>

text \<open>A normaliser logs a warning exactly when it returns \<^verbatim>\<open>None\<close>.\<close>

definition warned :: "string \<Rightarrow> normalized option \<Rightarrow> cevent list" where
  "warned name r = (if r = None then [LogWarningNormalize name] else [])"

text \<open>
  \<^verbatim>\<open>
  if topic == "kalshi.markets":       normalized = normalize_kalshi(raw)
  elif topic == "polymarket.markets": normalized = normalize_polymarket(raw)
  else:                               normalized = None
  \<close>
\<close>

definition normalize_for :: "string \<Rightarrow> json \<Rightarrow> pyexc + (normalized option \<times> cevent list)" where
  "normalize_for tp raw =
     (if tp = ''kalshi.markets''
      then map_sum id (\<lambda>r. (r, warned ''Kalshi'' r)) (normalize_kalshi raw)
      else if tp = ''polymarket.markets''
      then map_sum id (\<lambda>r. (r, warned ''Polymarket'' r)) (normalize_polymarket raw)
      else Inr (None, []))"

definition markets_handle ::
  "message \<Rightarrow> markets_table \<Rightarrow> markets_table \<times> cevent list \<times> outcome" where
  "markets_handle msg tbl =
     (case payload_value msg of
        Inl e \<Rightarrow>
          if e \<in> set [JSONDecodeError, UnicodeDecodeError]
          then (tbl, [LogErrorDecode (topic msg), Commit msg], Normal)
          else (tbl, [], Raised e)
      | Inr raw \<Rightarrow>
          (case normalize_for (topic msg) raw of
             Inl e \<Rightarrow> (tbl, [], Raised e)
           | Inr (None, evs) \<Rightarrow> (tbl, evs @ [Commit msg], Normal)
           | Inr (Some n, evs) \<Rightarrow>
               (let (tbl', evs') = upsert_market n tbl
                in (tbl', evs @ evs' @ [Commit msg], Normal))))"

text \<open>
  \<^verbatim>\<open>run\<close>: the loop over the poll results seen while \<^verbatim>\<open>running\<close> is true; the list
  ends where a signal has cleared the flag.  The \<^verbatim>\<open>finally\<close> clause closes the consumer
  on every exit.
\<close>

fun markets_run ::
  "poll_result list \<Rightarrow> markets_table \<Rightarrow> markets_table \<times> cevent list \<times> outcome" where
  "markets_run [] tbl = (tbl, [CloseConsumer], Normal)"
| "markets_run (NoMessage # ps) tbl = markets_run ps tbl"
| "markets_run (PartitionEOF # ps) tbl =
     (let (tbl', evs, out) = markets_run ps tbl in (tbl', LogDebugEOF # evs, out))"
| "markets_run (BrokerError # ps) tbl = (tbl, [CloseConsumer], Raised KafkaException)"
| "markets_run (Msg msg # ps) tbl =
     (case markets_handle msg tbl of
        (tbl', evs, Normal) \<Rightarrow>
          (let (tbl'', evs', out) = markets_run ps tbl' in (tbl'', evs @ evs', out))
      | (tbl', evs, Raised e) \<Rightarrow> (tbl', evs @ [CloseConsumer], Raised e))"

subsection \<open>The news consumer\<close>

text \<open>Truthiness, and \<^verbatim>\<open>a or b\<close>.\<close>

fun py_truthy :: "json \<Rightarrow> bool" where
  "py_truthy JNull = False"
| "py_truthy (JBool b) = b"
| "py_truthy (JInt n) = (n \<noteq> 0)"
| "py_truthy (JFloat f) = (f \<noteq> Fin 0)"
| "py_truthy (JStr s) = (s \<noteq> [])"
| "py_truthy (JList xs) = (xs \<noteq> [])"
| "py_truthy (JDict kv) = (kv \<noteq> [])"

definition py_or :: "json \<Rightarrow> json \<Rightarrow> json" where
  "py_or a b = (if py_truthy a then a else b)"

text \<open>
  \<^verbatim>\<open>v[:k]\<close> is defined on strings and lists.  On the other values it raises: a
  \<^verbatim>\<open>TypeError\<close> (on a \<^verbatim>\<open>dict\<close> the class of the exception depends on the Python
  version; no handler of the consumer catches either).
\<close>

fun py_sliceable :: "json \<Rightarrow> bool" where
  "py_sliceable (JStr s) = True"
| "py_sliceable (JList xs) = True"
| "py_sliceable _ = False"

text \<open>The text that an f-string inserts for a value: a string is inserted as it is.\<close>

definition py_format :: "(json \<Rightarrow> string) \<Rightarrow> json \<Rightarrow> string" where
  "py_format fmt v = (case v of JStr s \<Rightarrow> s | _ \<Rightarrow> fmt v)"

text \<open>
  \<^verbatim>\<open>store_chunk\<close> only logs \<^verbatim>\<open>article_url[:60]\<close> and \<^verbatim>\<open>len(embedding)\<close>.
\<close>

definition store_chunk :: "json \<Rightarrow> string \<Rightarrow> real list \<Rightarrow> cevent list \<times> pyexc option" where
  "store_chunk article_url chunk embedding =
     (if py_sliceable article_url
      then ([LogDebugStore article_url chunk (length embedding)], None)
      else ([], Some TypeError))"

text \<open>
  The loop \<^verbatim>\<open>for chunk in chunks: embedding = embed_text(chunk); if embedding:
  store_chunk(...)\<close>.  \<^verbatim>\<open>embed_text\<close> calls the embedding service and catches every
  exception, so it is a parameter that returns a vector or \<^verbatim>\<open>None\<close>.
\<close>

fun embed_all ::
  "(string \<Rightarrow> real list option) \<Rightarrow> json \<Rightarrow> string list \<Rightarrow> cevent list \<times> pyexc option" where
  "embed_all embed_text url [] = ([], None)"
| "embed_all embed_text url (chunk # chunks) =
     (case embed_text chunk of
        None \<Rightarrow> (let (evs, r) = embed_all embed_text url chunks in (EmbedCall chunk # evs, r))
      | Some v \<Rightarrow>
          if v = [] then (let (evs, r) = embed_all embed_text url chunks in (EmbedCall chunk # evs, r))
          else (case store_chunk url chunk v of
                  (evs0, Some e) \<Rightarrow> (EmbedCall chunk # evs0, Some e)
                | (evs0, None) \<Rightarrow>
                    (let (evs, r) = embed_all embed_text url chunks
                     in (EmbedCall chunk # evs0 @ evs, r))))"

text \<open>
  \<^verbatim>\<open>
  def process_article(article):
      url     = article.get("url", "")
      title   = article.get("title", "")
      content = article.get("content", "") or article.get("description", "")
      if not content:
          log.debug(...); return
      full_text = f"{title}\n\n{content}"
      chunks = chunk_text(full_text)
      metadata = {..., "published_at": article.get("publishedAt"),
                  "source": article.get("source", {}).get("name"), ...}
      for chunk in chunks:
          embedding = embed_text(chunk)
          if embedding:
              store_chunk(url, chunk, embedding, metadata)
      log.info(f"Processed article '{title[:50]}' ...")
  \<close>
  The result is \<open>None\<close> if the call does not return, else the calls made and the exception
  raised, if any.
\<close>

definition process_article ::
  "(json \<Rightarrow> string) \<Rightarrow> (string \<Rightarrow> real list option) \<Rightarrow> json
     \<Rightarrow> (cevent list \<times> pyexc option) option" where
  "process_article fmt embed_text article =
     (case article of
        JDict kv \<Rightarrow>
          (let url = lookup_default kv ''url'' (JStr '''');
               ttl = lookup_default kv ''title'' (JStr '''');
               content = py_or (lookup_default kv ''content'' (JStr ''''))
                               (lookup_default kv ''description'' (JStr ''''))
           in if \<not> py_truthy content then Some ([LogDebugNoContent url], None)
              else
                (case chunk_text (py_format fmt ttl @ [CHR 0x0A, CHR 0x0A] @ py_format fmt content)
                        CHUNK_SIZE of
                   None \<Rightarrow> None
                 | Some chunks \<Rightarrow>
                     (case py_get (lookup_default kv ''source'' (JDict [])) ''name'' JNull of
                        Inl e \<Rightarrow> Some ([], Some e)
                      | Inr src \<Rightarrow>
                          (case embed_all embed_text url chunks of
                             (evs, Some e) \<Rightarrow> Some (evs, Some e)
                           | (evs, None) \<Rightarrow>
                               if py_sliceable ttl then Some (evs @ [LogInfoProcessed], None)
                               else Some (evs, Some TypeError)))))
      | _ \<Rightarrow> Some ([], Some AttributeError))"

text \<open>
  The body of the loop of the news consumer for a message:
  \<^verbatim>\<open>
  try:
      article = json.loads(msg.value().decode("utf-8"))
      process_article(article)
  except (json.JSONDecodeError, UnicodeDecodeError) as e:
      log.error(...)
  consumer.commit(message=msg)
  \<close>
\<close>

definition news_handle ::
  "(json \<Rightarrow> string) \<Rightarrow> (string \<Rightarrow> real list option) \<Rightarrow> message
     \<Rightarrow> (cevent list \<times> outcome) option" where
  "news_handle fmt embed_text msg =
     (case payload_value msg of
        Inl e \<Rightarrow>
          if e \<in> set [JSONDecodeError, UnicodeDecodeError]
          then Some ([LogErrorDecode (topic msg), Commit msg], Normal)
          else Some ([], Raised e)
      | Inr article \<Rightarrow>
          (case process_article fmt embed_text article of
             None \<Rightarrow> None
           | Some (evs, None) \<Rightarrow> Some (evs @ [Commit msg], Normal)
           | Some (evs, Some e) \<Rightarrow>
               if e \<in> set [JSONDecodeError, UnicodeDecodeError]
               then Some (evs @ [LogErrorDecode (topic msg), Commit msg], Normal)
               else Some (evs, Raised e)))"

fun news_run ::
  "(json \<Rightarrow> string) \<Rightarrow> (string \<Rightarrow> real list option) \<Rightarrow> poll_result list
     \<Rightarrow> (cevent list \<times> outcome) option" where
  "news_run fmt embed_text [] = Some ([CloseConsumer], Normal)"
| "news_run fmt embed_text (NoMessage # ps) = news_run fmt embed_text ps"
| "news_run fmt embed_text (PartitionEOF # ps) =
     map_option (\<lambda>(evs, out). (LogDebugEOF # evs, out)) (news_run fmt embed_text ps)"
| "news_run fmt embed_text (BrokerError # ps) = Some ([CloseConsumer], Raised KafkaException)"
| "news_run fmt embed_text (Msg msg # ps) =
     (case news_handle fmt embed_text msg of
        None \<Rightarrow> None
      | Some (evs, Normal) \<Rightarrow>
          map_option (\<lambda>(evs', out). (evs @ evs', out)) (news_run fmt embed_text ps)
      | Some (evs, Raised e) \<Rightarrow> Some (evs @ [CloseConsumer], Raised e))"

subsection \<open>The producers\<close>

text \<open>
  The configuration dictionaries of the three \<^verbatim>\<open>create_producer\<close> functions;
  \<^verbatim>\<open>KAFKA_BOOTSTRAP_SERVERS\<close> is read from the environment and is a parameter.
\<close>

datatype cfg = CStr string | CInt int | CBool bool





text \<open>\<^verbatim>\<open>len(v)\<close> and the elements that \<^verbatim>\<open>for x in v\<close> visits.\<close>

definition py_len :: "json \<Rightarrow> pyexc + nat" where
  "py_len v =
     (case v of
        JList xs \<Rightarrow> Inr (length xs)
      | JStr s \<Rightarrow> Inr (length s)
      | JDict kv \<Rightarrow> Inr (length (remdups (map fst kv)))
      | _ \<Rightarrow> Inl TypeError)"

definition py_iter :: "json \<Rightarrow> pyexc + json list" where
  "py_iter v =
     (case v of
        JList xs \<Rightarrow> Inr xs
      | JStr s \<Rightarrow> Inr (map (\<lambda>c. JStr [c]) s)
      | JDict kv \<Rightarrow> Inr (map JStr (remdups (map fst kv)))
      | _ \<Rightarrow> Inl TypeError)"





















subsection \<open>The series cache of scrapeAllCategories.py\<close>

text \<open>\<^verbatim>\<open>s.split("-")\<close>: the pieces between the separators, at least one.\<close>

fun split_dash :: "string \<Rightarrow> string list" where
  "split_dash [] = [ [] ]"
| "split_dash (c # cs) =
     (if c = CHR ''-'' then [] # split_dash cs
      else (case split_dash cs of p # ps \<Rightarrow> (c # p) # ps | [] \<Rightarrow> [ [c] ]))"

text \<open>\<^verbatim>\<open>"-".join(parts)\<close>.\<close>

fun join_dash :: "string list \<Rightarrow> string" where
  "join_dash [] = []"
| "join_dash [p] = p"
| "join_dash (p # q # ps) = p @ CHR ''-'' # join_dash (q # ps)"

text \<open>
  \<^verbatim>\<open>c.isdigit()\<close> on the code points below 256: the ten decimal digits and the
  superscripts two, three and one.
\<close>

definition py_isdigit :: "char \<Rightarrow> bool" where
  "py_isdigit c = (let n = of_char c :: nat
                   in (48 \<le> n \<and> n \<le> 57) \<or> n = 178 \<or> n = 179 \<or> n = 185)"

text \<open>\<^verbatim>\<open>len(part) >= 2 and part[:2].isdigit()\<close>.\<close>

definition date_part :: "string \<Rightarrow> bool" where
  "date_part part = (2 \<le> length part \<and> list_all py_isdigit (take 2 part))"

text \<open>
  \<^verbatim>\<open>
  def extract_series_ticker(event_ticker):
      if not event_ticker:
          return ""
      parts = event_ticker.split("-")
      series_parts = []
      for part in parts:
          if len(part) >= 2 and part[:2].isdigit():
              break
          series_parts.append(part)
      return "-".join(series_parts) if series_parts else parts[0]
  \<close>
  The argument is whatever the market record holds under \<^verbatim>\<open>event_ticker\<close>; a value that
  is true and not a string has no \<^verbatim>\<open>split\<close>.
\<close>

definition extract_series_ticker :: "json \<Rightarrow> pyexc + string" where
  "extract_series_ticker event_ticker =
     (if \<not> py_truthy event_ticker then Inr ''''
      else (case event_ticker of
              JStr s \<Rightarrow>
                (let parts = split_dash s;
                     series_parts = takeWhile (\<lambda>p. \<not> date_part p) parts
                 in if series_parts \<noteq> [] then Inr (join_dash series_parts)
                    else (case parts of [] \<Rightarrow> Inl IndexError | p # _ \<Rightarrow> Inr p))
            | _ \<Rightarrow> Inl AttributeError))"

text \<open>
  The answer of the series endpoint to one request: the request raises, or it returns a
  status code and what \<^verbatim>\<open>resp.json()\<close> gives.
\<close>

datatype http_reply = RequestFails | Reply nat "pyexc + json"

text \<open>
  \<^verbatim>\<open>resp.json().get("series", {}).get("category", "(none)") if resp.status_code == 200
  else "(none)"\<close>, with every exception turned into \<^verbatim>\<open>"(none)"\<close>.
\<close>

definition category_of_reply :: "http_reply \<Rightarrow> json" where
  "category_of_reply r =
     (case r of
        RequestFails \<Rightarrow> JStr ''(none)''
      | Reply status body \<Rightarrow>
          if status = 200
          then (case bind_r body (\<lambda>d. bind_r (py_get d ''series'' (JDict []))
                                     (\<lambda>s. py_get s ''category'' (JStr ''(none)''))) of
                  Inl e \<Rightarrow> JStr ''(none)''
                | Inr cat \<Rightarrow> cat)
          else JStr ''(none)'')"

text \<open>
  \<^verbatim>\<open>
  _series_cache = {}
  def get_category(event_ticker):
      series_ticker = extract_series_ticker(event_ticker)
      if not series_ticker:
          return "(none)"
      if series_ticker in _series_cache:
          return _series_cache[series_ticker]
      try:
          resp = _session.get(f"{BASE_URL}/series/{series_ticker}", timeout=10)
          cat = (...)
      except Exception:
          cat = "(none)"
      _series_cache[series_ticker] = cat
      return cat
  \<close>
  The global dictionary is passed in and returned.  The endpoint is a parameter: a function
  from the series ticker requested to the reply.  The result carries the category, the
  cache after the call and the list of the series tickers requested over HTTP by the call.
\<close>

type_synonym series_cache = "string \<rightharpoonup> json"

definition get_category ::
  "(string \<Rightarrow> http_reply) \<Rightarrow> series_cache \<Rightarrow> json \<Rightarrow> pyexc + (json \<times> series_cache \<times> string list)" where
  "get_category http cache event_ticker =
     bind_r (extract_series_ticker event_ticker) (\<lambda>series_ticker.
       if series_ticker = [] then Inr (JStr ''(none)'', cache, [])
       else (case cache series_ticker of
               Some cat \<Rightarrow> Inr (cat, cache, [])
             | None \<Rightarrow>
                 (let cat = category_of_reply (http series_ticker)
                  in Inr (cat, cache(series_ticker \<mapsto> cat), [series_ticker]))))"

text \<open>
  A run of the script: the calls of \<^verbatim>\<open>get_category\<close> that the main loop makes one after
  the other, each against the endpoint as it answers at that moment.  The list of results
  stops at the first call that raises.
\<close>

fun get_categories ::
  "series_cache \<Rightarrow> ((string \<Rightarrow> http_reply) \<times> json) list
     \<Rightarrow> (json \<times> series_cache \<times> string list) list" where
  "get_categories cache [] = []"
| "get_categories cache ((http, ev) # calls) =
     (case get_category http cache ev of
        Inl e \<Rightarrow> []
      | Inr (cat, cache', reqs) \<Rightarrow> (cat, cache', reqs) # get_categories cache' calls)"

subsection \<open>Edges\<close>

text \<open>
  A row of the table \<^verbatim>\<open>edges\<close> (app/models/edge.py): \<^verbatim>\<open>market_id\<close>,
  \<^verbatim>\<open>market_probability\<close>, \<^verbatim>\<open>model_probability\<close>, \<^verbatim>\<open>edge_magnitude\<close> ("model_probability -
  market_probability"), \<^verbatim>\<open>direction\<close> and \<^verbatim>\<open>alert_sent\<close>, whose column default is
  \<^verbatim>\<open>False\<close>.  The key and the timestamp are assigned by the database and left out.
  Probabilities are real numbers here.
\<close>

record edge =
  market_id :: int
  market_probability :: real
  model_probability :: real
  edge_magnitude :: real
  direction :: string
  alert_sent :: bool

text \<open>The column default \<^verbatim>\<open>alert_sent = mapped_column(default=False)\<close>.\<close>

definition alert_sent_default :: bool where
  "alert_sent_default = False"

text \<open>
  Modelled from the spec: the system-wide floor of the Edge Detector of section 4.6
  ("default 0.05"); the repository contains no edge detector, only the table above and the
  read endpoints.
\<close>

definition EDGE_FLOOR :: real where
  "EDGE_FLOOR = 5 / 100"

text \<open>
  Modelled from the spec: the Edge Detector of section 4.6, which the repository does not
  contain.  "Compute edge_magnitude = model_probability - yes_price.  If
  abs(edge_magnitude) is at or above a system-wide floor (default 0.05), create a new Edge
  row with direction = YES if edge_magnitude > 0 else NO, alert_sent = false.  Below the
  floor, no Edge is created (not an error)."  The result is the row to create, if any.
\<close>

definition detect_edge :: "int \<Rightarrow> real \<Rightarrow> real \<Rightarrow> edge option" where
  "detect_edge mid yes_price_now model_prob =
     (let magnitude = model_prob - yes_price_now
      in if EDGE_FLOOR \<le> \<bar>magnitude\<bar>
         then Some \<lparr> market_id = mid, market_probability = yes_price_now,
                     model_probability = model_prob, edge_magnitude = magnitude,
                     direction = (if 0 < magnitude then ''YES'' else ''NO''),
                     alert_sent = alert_sent_default \<rparr>
         else None)"

text \<open>
  Modelled from the spec: the identity of detections in the guard of section 4.6, "an Edge
  with identical market_id, market_probability, model_probability"; absent from the
  repository.
\<close>

definition same_detection :: "edge \<Rightarrow> edge \<Rightarrow> bool" where
  "same_detection a b =
     (market_id a = market_id b \<and> market_probability a = market_probability b
      \<and> model_probability a = model_probability b)"

text \<open>
  Modelled from the spec: the guarded creation of section 4.6, absent from the repository:
  the detected row is appended to the table, "skip if an Edge with identical market_id,
  market_probability, model_probability already exists".
\<close>

definition record_edge :: "edge list \<Rightarrow> int \<Rightarrow> real \<Rightarrow> real \<Rightarrow> edge list" where
  "record_edge edges mid yes_price_now model_prob =
     (case detect_edge mid yes_price_now model_prob of
        None \<Rightarrow> edges
      | Some e \<Rightarrow> if list_ex (same_detection e) edges then edges else edges @ [e])"

section \<open>The chunker\<close>

subsection \<open>Slices as take and drop\<close>

lemma py_slice_window:
  "s < length xs \<Longrightarrow> 0 < cs \<Longrightarrow>
   py_slice xs (int s) (min (int s + cs) (int (length xs))) = take (nat cs) (drop s xs)"
  by (auto simp: py_slice_def Let_def min_def)

lemma py_slice_nat:
  "py_slice xs (int a) (int (a + b)) = take b (drop a xs)"
proof (cases "a < length xs")
  case True
  then show ?thesis
    by (cases "b = 0")
       (auto simp: py_slice_def Let_def min_def nat_int_add nat_diff_distrib' simp del: of_nat_add)
next
  case False
  then show ?thesis by (simp add: py_slice_def Let_def min_def)
qed

text \<open>\<^verbatim>\<open>xs[-0:]\<close> is the whole sequence, hence the side condition.\<close>

lemma py_last_eq: "0 < k \<Longrightarrow> py_last k xs = drop (length xs - k) xs"
  by (cases "k \<le> length xs") (auto simp: py_last_def py_slice_def Let_def nat_diff_distrib')

lemma py_first_eq: "py_first k xs = take k xs"
  by (cases "k = 0") (simp_all add: py_first_def py_slice_def Let_def min_def)

lemma py_from_eq: "py_from k xs = drop k xs"
  by (auto simp: py_from_def py_slice_def Let_def min_def nat_diff_distrib')

subsection \<open>The loop in closed form\<close>

text \<open>
  With a stride \<open>d = chunk_size - 200 > 0\<close> the loop started at \<open>s\<close> appends the windows at
  \<open>s, s + d, s + 2d, \<dots>\<close> below the length of the text.  The induction is on the
  distance of \<open>s\<close> to the end of the text.
\<close>

lemma chunk_loop_closed:
  assumes "200 < cs"
  shows "chunk_loop xs cs (int s) acc =
         Some (acc @ map (\<lambda>k. take (nat cs) (drop (s + k * nat (cs - 200)) xs))
                      [0..<(length xs - s + nat (cs - 200) - 1) div nat (cs - 200)])"
proof (induction "length xs - s" arbitrary: s acc rule: less_induct)
  case less
  define d where "d = nat (cs - 200)"
  have d: "0 < d" "int d = cs - 200" using assms by (simp_all add: d_def)
  show ?case
  proof (cases "s < length xs")
    case False
    then have "(length xs - s + d - 1) div d = 0" using d by simp
    with False show ?thesis
      by (subst chunk_loop.simps) (simp add: d_def)
  next
    case True
    have cnt: "(length xs - s + d - 1) div d = Suc ((length xs - (s + d) + d - 1) div d)"
    proof (cases "d \<le> length xs - s")
      case True
      define m where "m = length xs - (s + d) + d - 1"
      have "length xs - s + d - 1 = m + d" using True d by (simp add: m_def)
      moreover have "(m + d) div d = Suc (m div d)" using d(1) by (simp add: div_add_self2)
      ultimately show ?thesis by (simp add: m_def)
    next
      case False
      define m where "m = length xs - s + d - 1"
      have "d \<le> m" "m < 2 * d" using False True d(1) by (simp_all add: m_def)
      then have "m div d = 1" by (intro div_nat_eqI) simp_all
      moreover have "(length xs - (s + d) + d - 1) div d = 0" using False d(1) by simp
      ultimately show ?thesis by (simp add: m_def)
    qed
    have step: "chunk_loop xs cs (int s) acc =
                chunk_loop xs cs (int (s + d)) (acc @ [take (nat cs) (drop s xs)])"
      using True assms d
      by (subst chunk_loop.simps) (simp add: overlap_def py_slice_window)
    have "length xs - (s + d) < length xs - s" using True d by simp
    from less[OF this] show ?thesis
      unfolding step cnt d_def[symmetric]
      by (simp add: map_upt_Suc del: upt_Suc) (simp add: algebra_simps)
  qed
qed

lemma chunk_text_closed:
  "200 < cs \<Longrightarrow> chunk_text xs cs =
     Some (map (\<lambda>k. take (nat cs) (drop (k * nat (cs - 200)) xs))
             [0..<(length xs + nat (cs - 200) - 1) div nat (cs - 200)])"
  using chunk_loop_closed[of cs xs 0 "[]"] by (simp add: chunk_text_def)

lemma chunk_text_default:
  "chunk_text xs CHUNK_SIZE =
     Some (map (\<lambda>k. take 2000 (drop (k * 1800) xs)) [0..<(length xs + 1799) div 1800])"
  by (simp add: chunk_text_closed CHUNK_SIZE_def add.commute)

text \<open>
  With a stride \<open>\<le> 0\<close> the start index never passes the end of a non-empty text: no
  unfolding of the loop returns.
\<close>

lemma chunk_loop_diverges:
  assumes "chunk_loop xs cs start acc = Some r"
  shows "\<not> (cs \<le> 200 \<and> start < int (length xs))"
  by (rule chunk_loop.raw_induct
        [where P = "\<lambda>t c s a r. \<not> (c \<le> 200 \<and> s < int (length t))", OF _ assms])
     (fastforce simp: overlap_def split: if_splits)

subsection \<open>Termination (C10)\<close>

text \<open>
  C10.  \<^verbatim>\<open>chunk_text(text, chunk_size)\<close> returns for every text when \<open>chunk_size > 200\<close>:
  the start index grows by \<open>chunk_size - 200\<close> in each iteration, so the result is the list
  of the windows at the multiples of that stride; on the empty text it returns the empty
  list for every chunk size; on a non-empty text with \<open>chunk_size \<le> 200\<close> the loop never
  returns.
\<close>

theorem chunk_text_termination:
  "(200 < chunk_size \<longrightarrow>
      chunk_text (xs :: 'a list) chunk_size =
        Some (map (\<lambda>k. take (nat chunk_size) (drop (k * nat (chunk_size - overlap)) xs))
                [0..<(length xs + nat (chunk_size - overlap) - 1) div nat (chunk_size - overlap)]))
   \<and> chunk_text ([] :: 'a list) chunk_size = Some []
   \<and> (xs \<noteq> [] \<and> chunk_size \<le> 200 \<longrightarrow> chunk_text xs chunk_size = None)"
proof (intro conjI impI)
  assume "200 < chunk_size"
  then show "chunk_text xs chunk_size =
        Some (map (\<lambda>k. take (nat chunk_size) (drop (k * nat (chunk_size - overlap)) xs))
                [0..<(length xs + nat (chunk_size - overlap) - 1) div nat (chunk_size - overlap)])"
    by (simp add: chunk_text_closed overlap_def)
next
  show "chunk_text ([] :: 'a list) chunk_size = Some []"
    unfolding chunk_text_def by (subst chunk_loop.simps) simp
next
  assume a: "xs \<noteq> [] \<and> chunk_size \<le> 200"
  show "chunk_text xs chunk_size = None"
  proof (cases "chunk_text xs chunk_size")
    case None
    then show ?thesis .
  next
    case (Some r)
    then have "\<not> (chunk_size \<le> 200 \<and> 0 < int (length xs))"
      unfolding chunk_text_def by (rule chunk_loop_diverges)
    with a show ?thesis by simp
  qed
qed

theorem chunk_text_termination_witness:
  "(200::int) < 201 \<and> chunk_text ''abc'' 201 = Some [''abc'', ''bc'', ''c'']
   \<and> ''abc'' \<noteq> [] \<and> (200::int) \<le> 200 \<and> chunk_text ''abc'' 200 = None"
  using chunk_text_termination[of 201 "''abc''"] chunk_text_termination[of 200 "''abc''"]
  by (simp add: overlap_def upt_conv_Cons)

subsection \<open>A text of 4500 characters (C4)\<close>

lemma chunk_4500:
  assumes "length xs = 4500"
  shows "chunk_text xs CHUNK_SIZE = Some [take 2000 xs, take 2000 (drop 1800 xs), drop 3600 xs]"
proof -
  have "[0..<(4500 + 1799) div 1800] = [0, 1, 2::nat]" by (simp add: upt_conv_Cons)
  then show ?thesis using assms by (simp add: chunk_text_default)
qed

text \<open>
  C4 as stated fails: the stride is 1800, so the third chunk of a text of 4500 characters
  starts at 3600 and has 900 characters, not 500.
\<close>

theorem chunk_4500_third_chunk:
  "map_option (map length) (chunk_text (replicate 4500 (CHR ''a'')) CHUNK_SIZE)
     = Some [2000, 2000, 900]
   \<and> map_option (map length) (chunk_text (replicate 4500 (CHR ''a'')) CHUNK_SIZE)
     \<noteq> Some [2000, 2000, 500]"
  by (simp add: chunk_4500)

text \<open>
  C4, amended.  \<^verbatim>\<open>chunk_text\<close> with the default size on a text of 4500 characters yields
  exactly three chunks, of lengths 2000, 2000 and 900, and
  \<^verbatim>\<open>chunk[i][-200:] == chunk[i+1][:200]\<close> for both consecutive pairs.
\<close>

theorem chunk_4500_lengths:
  assumes "length xs = 4500"
  shows "\<exists>c0 c1 c2. chunk_text xs CHUNK_SIZE = Some [c0, c1, c2]
           \<and> length c0 = 2000 \<and> length c1 = 2000 \<and> length c2 = 900
           \<and> py_last 200 c0 = py_first 200 c1 \<and> py_last 200 c1 = py_first 200 c2"
  using assms by (simp add: chunk_4500 py_last_eq py_first_eq drop_take)

theorem chunk_4500_lengths_witness:
  "length (replicate 4500 (0::nat)) = 4500 \<and>
   (\<exists>c0 c1 c2. chunk_text (replicate 4500 (0::nat)) CHUNK_SIZE = Some [c0, c1, c2]
           \<and> length c0 = 2000 \<and> length c1 = 2000 \<and> length c2 = 900
           \<and> py_last 200 c0 = py_first 200 c1 \<and> py_last 200 c1 = py_first 200 c2)"
  using chunk_4500_lengths[of "replicate 4500 (0::nat)"] by simp

subsection \<open>Overlap of consecutive chunks (C5)\<close>

lemma chunk_1900:
  "chunk_text [0..<1900] CHUNK_SIZE = Some [ [0..<1900], [1800..<1900] ]"
proof -
  have "[0..<(1900 + 1799) div 1800] = [0, 1::nat]" by (simp add: upt_conv_Cons)
  then show ?thesis by (simp add: chunk_text_default take_upt drop_upt)
qed

text \<open>
  C5 as stated fails on a text of 1900 code points (numbered 0 to 1899 here): the second
  chunk starts at 1800 and has 100 elements, so the 200-element suffix of the first chunk
  is not the prefix of the second; the two share 100 elements.
\<close>

theorem chunk_text_overlap_short_tail:
  "chunk_text [0..<1900] CHUNK_SIZE = Some [ [0..<1900], [1800..<1900] ]
   \<and> py_last 200 [0..<1900] = [1700..<1900]
   \<and> py_first 200 [1800..<1900] = [1800..<1900]
   \<and> py_last 200 [0..<1900] \<noteq> py_first 200 [1800..<1900]"
proof -
  have l: "py_last 200 [0..<1900] = [1700..<1900]" by (simp add: py_last_eq drop_upt)
  have f: "py_first 200 [1800..<1900] = [1800..<1900]" by (simp add: py_first_eq take_upt)
  have "length [1700..<1900] \<noteq> length [1800..<1900]" by simp
  then have "[1700..<1900] \<noteq> [1800..<1900]" by metis
  with l f chunk_1900 show ?thesis by simp
qed

text \<open>
  C5, amended.  For every text, \<^verbatim>\<open>chunk_text(text)\<close> returns the list of the substrings
  \<^verbatim>\<open>text[1800*i : 1800*i + 2000]\<close> for the \<open>i\<close> with \<open>1800 * i < len(text)\<close>, in this order;
  each is non-empty and has at most 2000 characters.  For every consecutive pair,
  \<^verbatim>\<open>chunk[i][1800:] == chunk[i+1][:200]\<close>; when chunk \<open>i\<close> has the full 2000 characters this
  is its 200-character suffix, \<^verbatim>\<open>chunk[i][-200:] == chunk[i+1][:200]\<close>, which is the case
  for every pair but possibly the last one.
\<close>

theorem chunk_text_overlap:
  "\<exists>cs. chunk_text xs CHUNK_SIZE = Some cs
     \<and> length cs = (length xs + 1799) div 1800
     \<and> (\<forall>i<length cs. cs ! i = py_slice xs (int (1800 * i)) (int (1800 * i + 2000))
                          \<and> length (cs ! i) \<le> 2000 \<and> cs ! i \<noteq> [])
     \<and> (\<forall>i. Suc i < length cs \<longrightarrow> py_from 1800 (cs ! i) = py_first 200 (cs ! Suc i))
     \<and> (\<forall>i. Suc i < length cs \<and> length (cs ! i) = 2000 \<longrightarrow>
              py_last 200 (cs ! i) = py_first 200 (cs ! Suc i))
     \<and> (\<forall>i. Suc (Suc i) < length cs \<longrightarrow> length (cs ! i) = 2000)"
proof -
  define m where "m = (length xs + 1799) div 1800"
  define cs where "cs = map (\<lambda>k. take 2000 (drop (k * 1800) xs)) [0..<m]"
  have res: "chunk_text xs CHUNK_SIZE = Some cs"
    by (simp add: chunk_text_default cs_def m_def)
  have len: "length cs = m" by (simp add: cs_def)
  have nth: "cs ! i = take 2000 (drop (1800 * i) xs)" if "i < m" for i
    using that by (simp add: cs_def mult.commute)
  have bound: "1800 * i < length xs" if "i < m" for i
    using that unfolding m_def by arith
  have a: "\<forall>i<length cs. cs ! i = py_slice xs (int (1800 * i)) (int (1800 * i + 2000))
                          \<and> length (cs ! i) \<le> 2000 \<and> cs ! i \<noteq> []"
  proof (intro allI impI)
    fix i assume "i < length cs"
    then have i: "i < m" by (simp add: len)
    have "py_slice xs (int (1800 * i)) (int (1800 * i + 2000)) = take 2000 (drop (1800 * i) xs)"
      by (rule py_slice_nat)
    moreover have "cs ! i \<noteq> []" using bound[OF i] by (simp add: nth[OF i])
    ultimately show "cs ! i = py_slice xs (int (1800 * i)) (int (1800 * i + 2000))
                          \<and> length (cs ! i) \<le> 2000 \<and> cs ! i \<noteq> []"
      by (simp add: nth[OF i])
  qed
  have b: "py_from 1800 (cs ! i) = py_first 200 (cs ! Suc i)" if "Suc i < length cs" for i
  proof -
    have "i < m" "Suc i < m" using that len by simp_all
    then show ?thesis
      by (simp add: nth py_from_eq py_first_eq drop_take add.commute)
  qed
  have c: "py_last 200 (cs ! i) = py_first 200 (cs ! Suc i)"
    if "Suc i < length cs" "length (cs ! i) = 2000" for i
  proof -
    have "py_last 200 (cs ! i) = py_from 1800 (cs ! i)"
      using that(2) by (simp add: py_last_eq py_from_eq)
    with b[OF that(1)] show ?thesis by simp
  qed
  have d: "length (cs ! i) = 2000" if "Suc (Suc i) < length cs" for i
  proof -
    have "i < m" "Suc (Suc i) < m" using that len by simp_all
    with bound[of "Suc (Suc i)"] show ?thesis by (simp add: nth)
  qed
  from res len a b c d show ?thesis unfolding m_def by blast
qed

theorem chunk_text_overlap_witness:
  "\<exists>cs. chunk_text (replicate 3700 (CHR ''x'')) CHUNK_SIZE = Some cs \<and> length cs = 3
     \<and> Suc (Suc 0) < length cs \<and> length (cs ! 0) = 2000
     \<and> py_last 200 (cs ! 0) = py_first 200 (cs ! Suc 0)
     \<and> py_from 1800 (cs ! Suc 0) = py_first 200 (cs ! Suc (Suc 0))"
proof -
  from chunk_text_overlap[of "replicate 3700 (CHR ''x'')"]
  obtain cs where cs: "chunk_text (replicate 3700 (CHR ''x'')) CHUNK_SIZE = Some cs"
    and len: "length cs = (length (replicate 3700 (CHR ''x'')) + 1799) div 1800"
    and ov: "\<forall>i. Suc i < length cs \<longrightarrow> py_from 1800 (cs ! i) = py_first 200 (cs ! Suc i)"
    and full: "\<forall>i. Suc i < length cs \<and> length (cs ! i) = 2000 \<longrightarrow>
                 py_last 200 (cs ! i) = py_first 200 (cs ! Suc i)"
    and inner: "\<forall>i. Suc (Suc i) < length cs \<longrightarrow> length (cs ! i) = 2000"
    by blast
  from len have l3: "length cs = 3" by simp
  with inner have "length (cs ! 0) = 2000" by simp
  with l3 ov full cs show ?thesis by (intro exI[of _ cs]) simp
qed

section \<open>Rounding to a double\<close>








lemma round_double_0 [simp]: "round_double 0 = 0"
  by (simp add: round_double_def)



section \<open>The normalisers\<close>

lemma bind_r_simps [simp]:
  "bind_r (Inl e) f = Inl e"
  "bind_r (Inr v) f = f v"
  by (simp_all add: bind_r_def)

lemma py_get_dict [simp]: "py_get (JDict kv) k d = Inr (lookup_default kv k d)"
  by (simp add: py_get_def)

lemma py_get_not_dict: "(\<forall>kv. raw \<noteq> JDict kv) \<Longrightarrow> py_get raw k d = Inl AttributeError"
  by (cases raw) (simp_all add: py_get_def)

lemma py_item_str_not_dict: "(\<forall>kv. raw \<noteq> JDict kv) \<Longrightarrow> py_item_str raw k = Inl TypeError"
  by (cases raw) (simp_all add: py_item_str_def)

lemma py_item_str_dict:
  "py_item_str (JDict kv) k = (case map_of kv k of None \<Rightarrow> Inl KeyError | Some v \<Rightarrow> Inr v)"
  by (simp add: py_item_str_def)

lemma float_of_int_cases:
  "float_of_int n = Inl OverflowError \<or> float_of_int n = Inr (Fin (round_double (real_of_int n)))"
  by (simp add: float_of_int_def)

text \<open>
  The price of a Kalshi payload raises \<^verbatim>\<open>TypeError\<close> exactly when an operand is not a
  number; with two numbers it is a float, or the conversion of an out-of-range integer
  raises.
\<close>

lemma kalshi_price_TypeError:
  "bind_r (py_add a b) py_truediv_200 = Inl TypeError \<longleftrightarrow> \<not> (is_number a \<and> is_number b)"
  by (cases a; cases b)
     (auto simp: py_add_def py_truediv_200_def is_number_def float_of_int_def bind_r_def
           split: sum.splits option.splits if_splits)

lemma kalshi_price_cases:
  "is_number a \<Longrightarrow> is_number b \<Longrightarrow>
   bind_r (py_add a b) py_truediv_200 = Inl OverflowError
   \<or> (\<exists>f. bind_r (py_add a b) py_truediv_200 = Inr f)"
  by (cases a; cases b)
     (auto simp: py_add_def py_truediv_200_def is_number_def float_of_int_def bind_r_def
           split: sum.splits option.splits if_splits)

lemma try_except_None_eq_None:
  "try_except_None hs r = Inr None \<longleftrightarrow> (\<exists>e. r = Inl e \<and> e \<in> set hs)"
  by (cases r) (auto simp: try_except_None_def)

lemma try_except_None_eq_Some:
  "try_except_None hs r = Inr (Some v) \<longleftrightarrow> r = Inr v"
  by (cases r) (auto simp: try_except_None_def)

lemma try_except_None_eq_Inl:
  "try_except_None hs r = Inl e \<longleftrightarrow> r = Inl e \<and> e \<notin> set hs"
  by (cases r) (auto simp: try_except_None_def)

lemma normalize_kalshi_not_dict:
  "(\<forall>kv. raw \<noteq> JDict kv) \<Longrightarrow> normalize_kalshi raw = Inr None"
  by (simp add: normalize_kalshi_def py_item_str_not_dict try_except_None_def)

lemma normalize_kalshi_dict:
  "normalize_kalshi (JDict kv) =
     (case map_of kv ''ticker'' of
        None \<Rightarrow> Inr None
      | Some ticker \<Rightarrow>
          try_except_None [KeyError, TypeError]
            (bind_r (bind_r (py_add (lookup_default kv ''yes_bid'' (JInt 0))
                                    (lookup_default kv ''yes_ask'' (JInt 0))) py_truediv_200)
               (\<lambda>price. Inr \<lparr> platform = ''kalshi'', external_id = ticker,
                   title = lookup_default kv ''title'' (JStr ''''),
                   category = lookup_default kv ''category'' (JStr ''''),
                   close_time = lookup_default kv ''close_time'' JNull,
                   yes_price = price,
                   volume = lookup_default kv ''volume'' (JInt 0),
                   is_open = JBool (lookup_default kv ''status'' JNull = JStr ''open'') \<rparr>)))"
  by (simp add: normalize_kalshi_def py_item_str_dict try_except_None_def bind_r_def
           split: option.splits sum.splits)

lemma normalize_kalshi_None_iff:
  "normalize_kalshi raw = Inr None \<longleftrightarrow>
     (\<forall>kv. raw \<noteq> JDict kv) \<or>
     (\<exists>kv. raw = JDict kv \<and>
        (map_of kv ''ticker'' = None
         \<or> \<not> (is_number (lookup_default kv ''yes_bid'' (JInt 0))
               \<and> is_number (lookup_default kv ''yes_ask'' (JInt 0)))))"
proof (cases "\<exists>kv. raw = JDict kv")
  case False
  then show ?thesis by (simp add: normalize_kalshi_not_dict)
next
  case True
  then obtain kv where raw: "raw = JDict kv" by blast
  let ?p = "bind_r (py_add (lookup_default kv ''yes_bid'' (JInt 0))
                           (lookup_default kv ''yes_ask'' (JInt 0))) py_truediv_200"
  show ?thesis
  proof (cases "map_of kv ''ticker''")
    case None
    then show ?thesis by (simp add: raw normalize_kalshi_dict)
  next
    case (Some t)
    have "normalize_kalshi raw = Inr None \<longleftrightarrow> ?p = Inl TypeError"
    proof (cases ?p)
      case (Inl e)
      have "e = TypeError \<or> e = OverflowError"
        using Inl
          kalshi_price_cases[of "lookup_default kv ''yes_bid'' (JInt 0)"
                                "lookup_default kv ''yes_ask'' (JInt 0)"]
          kalshi_price_TypeError[of "lookup_default kv ''yes_bid'' (JInt 0)"
                                    "lookup_default kv ''yes_ask'' (JInt 0)"]
        by (cases "is_number (lookup_default kv ''yes_bid'' (JInt 0))
                   \<and> is_number (lookup_default kv ''yes_ask'' (JInt 0))") auto
      then have "e \<noteq> KeyError" by auto
      then show ?thesis
        using Inl Some by (simp add: raw normalize_kalshi_dict try_except_None_def)
    next
      case (Inr f)
      then show ?thesis
        using Some by (simp add: raw normalize_kalshi_dict try_except_None_def)
    qed
    then show ?thesis using Some by (simp add: raw kalshi_price_TypeError)
  qed
qed


lemma py_float_cases:
  "py_float v = Inl TypeError \<or> py_float v = Inl ValueError \<or> py_float v = Inl OverflowError
   \<or> (\<exists>f. py_float v = Inr f)"
  by (cases v) (auto simp: py_float_def float_of_int_def split: option.splits)

lemma py_item0_cases:
  "py_item0 v = Inl TypeError \<or> py_item0 v = Inl KeyError \<or> py_item0 v = Inl IndexError
   \<or> (\<exists>x. py_item0 v = Inr x)"
  by (cases v) (auto simp: py_item0_def split: list.splits)

lemma normalize_polymarket_not_dict:
  "(\<forall>kv. raw \<noteq> JDict kv) \<Longrightarrow> normalize_polymarket raw = Inl AttributeError"
  by (simp add: normalize_polymarket_def py_get_not_dict try_except_None_def)

lemma normalize_polymarket_dict:
  "normalize_polymarket (JDict kv) =
     try_except_None [KeyError, TypeError, ValueError]
       (bind_r (py_item0 (lookup_default kv ''outcomePrices'' (JList [JStr ''0'']))) (\<lambda>first.
        bind_r (py_float first) (\<lambda>price.
        bind_r (py_float (lookup_default kv ''volume'' (JInt 0))) (\<lambda>vol.
        Inr \<lparr> platform = ''polymarket'',
              external_id = lookup_default kv ''conditionId'' (lookup_default kv ''id'' (JStr '''')),
              title = lookup_default kv ''question'' (lookup_default kv ''title'' (JStr '''')),
              category = lookup_default kv ''category'' (JStr ''''),
              close_time = lookup_default kv ''endDate'' JNull,
              yes_price = price, volume = JFloat vol,
              is_open = lookup_default kv ''active'' (JBool False) \<rparr>))))"
  by (simp add: normalize_polymarket_def)

lemma normalize_polymarket_None_iff:
  "normalize_polymarket raw = Inr None \<longleftrightarrow>
     (\<exists>kv. raw = JDict kv \<and>
        (py_item0 (lookup_default kv ''outcomePrices'' (JList [JStr ''0''])) = Inl TypeError
         \<or> py_item0 (lookup_default kv ''outcomePrices'' (JList [JStr ''0''])) = Inl KeyError
         \<or> (\<exists>first. py_item0 (lookup_default kv ''outcomePrices'' (JList [JStr ''0''])) = Inr first
               \<and> (float_rejected first
                    \<or> ((\<exists>f. py_float first = Inr f)
                        \<and> float_rejected (lookup_default kv ''volume'' (JInt 0)))))))"
proof (cases "\<exists>kv. raw = JDict kv")
  case False
  then show ?thesis by (auto simp: normalize_polymarket_not_dict)
next
  case True
  then obtain kv where raw: "raw = JDict kv" by blast
  show ?thesis
    using py_item0_cases[of "lookup_default kv ''outcomePrices'' (JList [JStr ''0''])"]
  proof (elim disjE exE)
    fix x assume x: "py_item0 (lookup_default kv ''outcomePrices'' (JList [JStr ''0''])) = Inr x"
    show ?thesis
      using py_float_cases[of x] py_float_cases[of "lookup_default kv ''volume'' (JInt 0)"]
      by (auto simp: raw normalize_polymarket_dict x try_except_None_def float_rejected_def)
  qed (auto simp: raw normalize_polymarket_dict try_except_None_def)
qed

lemma normalize_polymarket_id_default:
  assumes "map_of kv ''conditionId'' = None" "map_of kv ''id'' = None"
    and "normalize_polymarket (JDict kv) = Inr (Some n)"
  shows "external_id n = JStr ''''"
  using assms
  by (auto simp: normalize_polymarket_dict try_except_None_eq_Some lookup_default_def bind_r_def
           split: sum.splits)

lemma normalize_polymarket_bad_price:
  assumes "lookup_default kv ''outcomePrices'' (JList [JStr ''0'']) = JList (JStr s # rest)"
    and "float_of_str s = None"
  shows "normalize_polymarket (JDict kv) = Inr None"
  using assms
  by (simp add: normalize_polymarket_dict py_item0_def py_float_def try_except_None_def)

lemma normalize_handled_classes:
  "normalize_kalshi raw \<noteq> Inl KeyError" "normalize_kalshi raw \<noteq> Inl TypeError"
  "normalize_polymarket raw \<noteq> Inl KeyError" "normalize_polymarket raw \<noteq> Inl TypeError"
  "normalize_polymarket raw \<noteq> Inl ValueError"
  by (simp_all add: normalize_kalshi_def normalize_polymarket_def try_except_None_eq_Inl)

lemma normalize_for_Some:
  assumes "normalize_for tp raw = Inr (Some n, evs)"
  shows "evs = [] \<and> ((tp = ''kalshi.markets'' \<and> normalize_kalshi raw = Inr (Some n))
                     \<or> (tp = ''polymarket.markets'' \<and> normalize_polymarket raw = Inr (Some n)))"
proof (cases "tp = ''kalshi.markets''")
  case True
  with assms show ?thesis
    by (cases "normalize_kalshi raw") (auto simp: normalize_for_def warned_def)
next
  case False
  with assms show ?thesis
    by (cases "normalize_polymarket raw") (auto simp: normalize_for_def warned_def split: if_splits)
qed

lemma normalize_for_None:
  assumes "normalize_for tp raw = Inr (None, evs)"
  shows "LogDebugUpsert p x \<notin> set evs"
proof (cases "tp = ''kalshi.markets''")
  case True
  with assms show ?thesis
    by (cases "normalize_kalshi raw") (auto simp: normalize_for_def warned_def)
next
  case False
  with assms show ?thesis
    by (cases "normalize_polymarket raw") (auto simp: normalize_for_def warned_def split: if_splits)
qed

lemma markets_handle_upsert_only_normalized:
  assumes "markets_handle msg tbl = (tbl', evs, out)" "LogDebugUpsert p x \<in> set evs"
  shows "\<exists>raw n. payload_value msg = Inr raw
           \<and> ((topic msg = ''kalshi.markets'' \<and> normalize_kalshi raw = Inr (Some n))
                \<or> (topic msg = ''polymarket.markets'' \<and> normalize_polymarket raw = Inr (Some n)))
           \<and> p = platform n \<and> x = external_id n"
proof (cases "payload_value msg")
  case (Inl e)
  with assms show ?thesis by (auto simp: markets_handle_def split: if_splits)
next
  case (Inr raw)
  show ?thesis
  proof (cases "normalize_for (topic msg) raw")
    case (Inl e)
    with Inr assms show ?thesis by (simp add: markets_handle_def)
  next
    case r: (Inr res)
    obtain r0 evs0 where res: "res = (r0, evs0)" by (cases res)
    show ?thesis
    proof (cases r0)
      case None
      with Inr r res assms normalize_for_None[of "topic msg" raw evs0 p x] show ?thesis
        by (auto simp: markets_handle_def)
    next
      case (Some n)
      with r res have nf: "normalize_for (topic msg) raw = Inr (Some n, evs0)" by simp
      from normalize_for_Some[OF nf] Inr nf assms show ?thesis
        by (auto simp: markets_handle_def upsert_market_def)
    qed
  qed
qed

text \<open>A payload that the normaliser of its topic rejects is logged and committed.\<close>

lemma markets_handle_rejected_kalshi:
  assumes "payload_value msg = Inr raw" "topic msg = ''kalshi.markets''"
    and "normalize_kalshi raw = Inr None"
  shows "markets_handle msg tbl = (tbl, [LogWarningNormalize ''Kalshi'', Commit msg], Normal)"
  using assms by (simp add: markets_handle_def normalize_for_def warned_def)

lemma markets_handle_rejected_polymarket:
  assumes "payload_value msg = Inr raw" "topic msg = ''polymarket.markets''"
    and "normalize_polymarket raw = Inr None"
  shows "markets_handle msg tbl = (tbl, [LogWarningNormalize ''Polymarket'', Commit msg], Normal)"
  using assms by (simp add: markets_handle_def normalize_for_def warned_def)

lemma markets_handle_rejected:
  assumes "payload_value msg = Inr raw" "normalize_for (topic msg) raw = Inr (None, evs)"
  shows "markets_handle msg tbl = (tbl, evs @ [Commit msg], Normal)"
  using assms by (simp add: markets_handle_def)


lemma float_rejected_str: "float_rejected (JStr s) \<longleftrightarrow> float_of_str s = None"
  by (simp add: float_rejected_def py_float_def split: option.splits)

lemma DBL_LIMIT_big: "200 < DBL_LIMIT"
  by (simp add: DBL_LIMIT_def)

lemma to_float_Fin: "\<bar>r\<bar> < DBL_LIMIT \<Longrightarrow> to_float r = Fin (round_double r)"
  by (auto simp: to_float_def)

lemma float_of_int_Fin:
  "\<bar>real_of_int n\<bar> < DBL_LIMIT \<Longrightarrow> float_of_int n = Inr (Fin (round_double (real_of_int n)))"
  by (simp add: float_of_int_def)






subsection \<open>Evaluations used at concrete payloads\<close>

lemma to_float_small: "\<bar>r\<bar> \<le> 200 \<Longrightarrow> to_float r = Fin (round_double r)"
  using DBL_LIMIT_big by (auto simp: to_float_def)

lemma float_of_int_small:
  "\<bar>n\<bar> \<le> 200 \<Longrightarrow> float_of_int n = Inr (Fin (round_double (real_of_int n)))"
proof -
  assume "\<bar>n\<bar> \<le> 200"
  then have "\<bar>real_of_int n\<bar> \<le> 200" by linarith
  with DBL_LIMIT_big show ?thesis by (simp add: float_of_int_def)
qed

lemmas float_str_defs =
  float_of_str_def strip_def is_space_def parse_decimal_def parse_exponent_def
  is_digitpart_char_def is_ascii_digit_def digits_of_def digit_val_def nat_of_digits_def
  lower_def Let_def


lemma eval_float_0: "float_of_str ''0'' = Some (Fin 0)"
  by (simp add: float_str_defs to_float_small)

lemma eval_float_abc: "float_of_str ''abc'' = None"
  by (simp add: float_str_defs)




subsection \<open>Rejections (C3)\<close>

text \<open>
  C3 as stated fails for Polymarket: a payload with neither \<^verbatim>\<open>conditionId\<close> nor \<^verbatim>\<open>id\<close>
  is not rejected.  \<^verbatim>\<open>raw.get("conditionId", raw.get("id", ""))\<close> defaults to the empty
  string, and the normaliser returns a record whose \<^verbatim>\<open>external_id\<close> is \<^verbatim>\<open>""\<close>.
\<close>

theorem normalize_polymarket_missing_id:
  "normalize_polymarket (JDict []) =
     Inr (Some \<lparr> platform = ''polymarket'', external_id = JStr '''', title = JStr '''',
                 category = JStr '''', close_time = JNull, yes_price = Fin 0,
                 volume = JFloat (Fin 0), is_open = JBool False \<rparr>)"
  by (simp add: normalize_polymarket_dict lookup_default_def py_item0_def py_float_def
        eval_float_0 float_of_int_small try_except_None_def)

text \<open>
  C3, amended.  \<^verbatim>\<open>normalize_kalshi\<close> returns \<^verbatim>\<open>None\<close> exactly when the payload is not
  a \<^verbatim>\<open>dict\<close>, has no \<^verbatim>\<open>ticker\<close>, or has a \<^verbatim>\<open>yes_bid\<close> or \<^verbatim>\<open>yes_ask\<close> (default 0)
  that is not a number.  \<^verbatim>\<open>normalize_polymarket\<close> returns \<^verbatim>\<open>None\<close> exactly when the
  payload is a \<^verbatim>\<open>dict\<close> and \<^verbatim>\<open>outcomePrices\<close> (default \<^verbatim>\<open>["0"]\<close>) is not a list or
  string, or \<^verbatim>\<open>float\<close> rejects its first element, or \<^verbatim>\<open>float\<close> accepts it and rejects
  \<^verbatim>\<open>volume\<close> (default 0); \<^verbatim>\<open>float\<close> rejects a string exactly when it does not parse.
  A missing \<^verbatim>\<open>conditionId\<close>/\<^verbatim>\<open>id\<close> is no rejection: the record then carries the empty
  string.  No exception of a class named in the \<^verbatim>\<open>except\<close> clause leaves a normaliser.
  In the consumer loop, \<^verbatim>\<open>upsert_market\<close> is called only with a record that the
  normaliser of the message's topic returned for the message's payload; a payload that
  the normaliser of its topic rejects is logged, never upserted, and committed.
\<close>

theorem normalize_rejection:
  "(normalize_kalshi raw = Inr None \<longleftrightarrow>
      (\<forall>kv. raw \<noteq> JDict kv) \<or>
      (\<exists>kv. raw = JDict kv \<and>
         (map_of kv ''ticker'' = None
          \<or> \<not> (is_number (lookup_default kv ''yes_bid'' (JInt 0))
                \<and> is_number (lookup_default kv ''yes_ask'' (JInt 0))))))
   \<and> (normalize_polymarket raw = Inr None \<longleftrightarrow>
      (\<exists>kv. raw = JDict kv \<and>
         (py_item0 (lookup_default kv ''outcomePrices'' (JList [JStr ''0''])) = Inl TypeError
          \<or> py_item0 (lookup_default kv ''outcomePrices'' (JList [JStr ''0''])) = Inl KeyError
          \<or> (\<exists>first. py_item0 (lookup_default kv ''outcomePrices'' (JList [JStr ''0''])) = Inr first
                \<and> (float_rejected first
                     \<or> ((\<exists>f. py_float first = Inr f)
                         \<and> float_rejected (lookup_default kv ''volume'' (JInt 0))))))))
   \<and> (\<forall>s. float_rejected (JStr s) \<longleftrightarrow> float_of_str s = None)
   \<and> (\<forall>kv n. raw = JDict kv \<and> map_of kv ''conditionId'' = None \<and> map_of kv ''id'' = None
          \<and> normalize_polymarket raw = Inr (Some n) \<longrightarrow> external_id n = JStr '''')
   \<and> normalize_kalshi raw \<noteq> Inl KeyError \<and> normalize_kalshi raw \<noteq> Inl TypeError
   \<and> normalize_polymarket raw \<noteq> Inl KeyError \<and> normalize_polymarket raw \<noteq> Inl TypeError
   \<and> normalize_polymarket raw \<noteq> Inl ValueError
   \<and> (\<forall>msg tbl tbl' evs out p x.
         markets_handle msg tbl = (tbl', evs, out) \<and> LogDebugUpsert p x \<in> set evs \<longrightarrow>
         (\<exists>raw' n. payload_value msg = Inr raw'
            \<and> ((topic msg = ''kalshi.markets'' \<and> normalize_kalshi raw' = Inr (Some n))
                 \<or> (topic msg = ''polymarket.markets''
                      \<and> normalize_polymarket raw' = Inr (Some n)))
            \<and> p = platform n \<and> x = external_id n))
   \<and> (\<forall>msg tbl. payload_value msg = Inr raw \<and> topic msg = ''kalshi.markets''
          \<and> normalize_kalshi raw = Inr None \<longrightarrow>
          markets_handle msg tbl = (tbl, [LogWarningNormalize ''Kalshi'', Commit msg], Normal))
   \<and> (\<forall>msg tbl. payload_value msg = Inr raw \<and> topic msg = ''polymarket.markets''
          \<and> normalize_polymarket raw = Inr None \<longrightarrow>
          markets_handle msg tbl = (tbl, [LogWarningNormalize ''Polymarket'', Commit msg], Normal))"
proof (intro conjI)
  show "normalize_kalshi raw = Inr None \<longleftrightarrow>
      (\<forall>kv. raw \<noteq> JDict kv) \<or>
      (\<exists>kv. raw = JDict kv \<and>
         (map_of kv ''ticker'' = None
          \<or> \<not> (is_number (lookup_default kv ''yes_bid'' (JInt 0))
                \<and> is_number (lookup_default kv ''yes_ask'' (JInt 0)))))"
    by (rule normalize_kalshi_None_iff)
  show "normalize_polymarket raw = Inr None \<longleftrightarrow>
      (\<exists>kv. raw = JDict kv \<and>
         (py_item0 (lookup_default kv ''outcomePrices'' (JList [JStr ''0''])) = Inl TypeError
          \<or> py_item0 (lookup_default kv ''outcomePrices'' (JList [JStr ''0''])) = Inl KeyError
          \<or> (\<exists>first. py_item0 (lookup_default kv ''outcomePrices'' (JList [JStr ''0''])) = Inr first
                \<and> (float_rejected first
                     \<or> ((\<exists>f. py_float first = Inr f)
                         \<and> float_rejected (lookup_default kv ''volume'' (JInt 0)))))))"
    by (rule normalize_polymarket_None_iff)
  show "\<forall>s. float_rejected (JStr s) \<longleftrightarrow> float_of_str s = None"
    by (simp add: float_rejected_str)
  show "\<forall>kv n. raw = JDict kv \<and> map_of kv ''conditionId'' = None \<and> map_of kv ''id'' = None
          \<and> normalize_polymarket raw = Inr (Some n) \<longrightarrow> external_id n = JStr ''''"
    using normalize_polymarket_id_default by blast
  show "\<forall>msg tbl tbl' evs out p x.
         markets_handle msg tbl = (tbl', evs, out) \<and> LogDebugUpsert p x \<in> set evs \<longrightarrow>
         (\<exists>raw' n. payload_value msg = Inr raw'
            \<and> ((topic msg = ''kalshi.markets'' \<and> normalize_kalshi raw' = Inr (Some n))
                 \<or> (topic msg = ''polymarket.markets''
                      \<and> normalize_polymarket raw' = Inr (Some n)))
            \<and> p = platform n \<and> x = external_id n)"
    using markets_handle_upsert_only_normalized by blast
  show "\<forall>msg tbl. payload_value msg = Inr raw \<and> topic msg = ''kalshi.markets''
          \<and> normalize_kalshi raw = Inr None \<longrightarrow>
          markets_handle msg tbl = (tbl, [LogWarningNormalize ''Kalshi'', Commit msg], Normal)"
    using markets_handle_rejected_kalshi by blast
  show "\<forall>msg tbl. payload_value msg = Inr raw \<and> topic msg = ''polymarket.markets''
          \<and> normalize_polymarket raw = Inr None \<longrightarrow>
          markets_handle msg tbl = (tbl, [LogWarningNormalize ''Polymarket'', Commit msg], Normal)"
    using markets_handle_rejected_polymarket by blast
qed (rule normalize_handled_classes)+

theorem normalize_rejection_witness:
  "normalize_kalshi (JDict [(''yes_bid'', JInt 40)]) = Inr None
   \<and> normalize_kalshi (JDict [(''ticker'', JStr ''T''), (''yes_bid'', JNull)]) = Inr None
   \<and> normalize_polymarket
        (JDict [(''conditionId'', JStr ''c''), (''outcomePrices'', JList [JStr ''abc''])]) = Inr None
   \<and> markets_handle
        \<lparr> topic = ''kalshi.markets'', partition = 0, offset = 3,
          payload_value = Inr (JDict [(''yes_bid'', JInt 40)]) \<rparr> [] =
       ([], [LogWarningNormalize ''Kalshi'',
             Commit \<lparr> topic = ''kalshi.markets'', partition = 0, offset = 3,
                      payload_value = Inr (JDict [(''yes_bid'', JInt 40)]) \<rparr>], Normal)"
proof -
  have k1: "normalize_kalshi (JDict [(''yes_bid'', JInt 40)]) = Inr None"
    using normalize_rejection[of "JDict [(''yes_bid'', JInt 40)]"] by simp
  have k2: "normalize_kalshi (JDict [(''ticker'', JStr ''T''), (''yes_bid'', JNull)]) = Inr None"
    using normalize_rejection[of "JDict [(''ticker'', JStr ''T''), (''yes_bid'', JNull)]"]
    by (simp add: lookup_default_def is_number_def)
  have "float_rejected (JStr ''abc'')"
    using normalize_rejection[of JNull] eval_float_abc by blast
  then have p: "normalize_polymarket
        (JDict [(''conditionId'', JStr ''c''), (''outcomePrices'', JList [JStr ''abc''])]) = Inr None"
    using normalize_rejection
            [of "JDict [(''conditionId'', JStr ''c''), (''outcomePrices'', JList [JStr ''abc''])]"]
    by (simp add: lookup_default_def py_item0_def)
  have h: "markets_handle
        \<lparr> topic = ''kalshi.markets'', partition = 0, offset = 3,
          payload_value = Inr (JDict [(''yes_bid'', JInt 40)]) \<rparr> [] =
       ([], [LogWarningNormalize ''Kalshi'',
             Commit \<lparr> topic = ''kalshi.markets'', partition = 0, offset = 3,
                      payload_value = Inr (JDict [(''yes_bid'', JInt 40)]) \<rparr>], Normal)"
    using normalize_rejection[of "JDict [(''yes_bid'', JInt 40)]"] k1 by simp
  from k1 k2 p h show ?thesis by simp
qed

subsection \<open>The range of \<^verbatim>\<open>yes_price\<close> (C6)\<close>




section \<open>The consumer loops\<close>

lemma markets_handle_decode_error:
  assumes "payload_value msg = Inl e" "decode_error e"
  shows "markets_handle msg tbl = (tbl, [LogErrorDecode (topic msg), Commit msg], Normal)"
  using assms by (auto simp: markets_handle_def decode_error_def)

lemma markets_run_decode_error:
  assumes "payload_value msg = Inl e" "decode_error e"
  shows "markets_run (Msg msg # ps) tbl =
           (case markets_run ps tbl of
              (tbl', evs, out) \<Rightarrow> (tbl', LogErrorDecode (topic msg) # Commit msg # evs, out))"
  by (simp add: markets_handle_decode_error[OF assms] split: prod.splits)

lemma normalize_for_no_commit:
  assumes "normalize_for tp raw = Inr (r, evs)"
  shows "list_all (\<lambda>ev. \<not> is_commit ev) evs"
proof (cases "tp = ''kalshi.markets''")
  case True
  with assms show ?thesis
    by (cases "normalize_kalshi raw") (auto simp: normalize_for_def warned_def is_commit_def)
next
  case False
  with assms show ?thesis
    by (cases "normalize_polymarket raw")
       (auto simp: normalize_for_def warned_def is_commit_def split: if_splits)
qed

lemma markets_handle_decoded:
  assumes "payload_value msg = Inr raw"
  shows "(\<exists>e. normalize_for (topic msg) raw = Inl e \<and> markets_handle msg tbl = (tbl, [], Raised e))
       \<or> (\<exists>r pre. (\<exists>w. normalize_for (topic msg) raw = Inr (r, w))
              \<and> markets_handle msg tbl = (tbl, pre @ [Commit msg], Normal)
              \<and> list_all (\<lambda>ev. \<not> is_commit ev) pre
              \<and> (\<forall>n. r = Some n \<longrightarrow> LogDebugUpsert (platform n) (external_id n) \<in> set pre))"
proof (cases "normalize_for (topic msg) raw")
  case (Inl e)
  with assms show ?thesis by (simp add: markets_handle_def)
next
  case (Inr res)
  obtain r w where res: "res = (r, w)" by (cases res)
  from normalize_for_no_commit[of "topic msg" raw r w] Inr res
  have w: "list_all (\<lambda>ev. \<not> is_commit ev) w" by simp
  show ?thesis
  proof (cases r)
    case None
    with assms Inr res w show ?thesis
      by (intro disjI2 exI[of _ r] exI[of _ w]) (simp add: markets_handle_def)
  next
    case (Some n)
    with assms Inr res w show ?thesis
      by (intro disjI2 exI[of _ r] exI[of _ "w @ [LogDebugUpsert (platform n) (external_id n)]"])
         (simp add: markets_handle_def upsert_market_def is_commit_def)
  qed
qed

lemma embed_all_events:
  "embed_all embed_text url chunks = (evs, r) \<Longrightarrow>
     list_all (\<lambda>ev. \<not> is_commit ev) evs \<and> (r = None \<or> r = Some TypeError)"
proof (induction chunks arbitrary: evs r)
  case Nil
  then show ?case by simp
next
  case (Cons chunk chunks)
  obtain evs1 r1 where rest: "embed_all embed_text url chunks = (evs1, r1)"
    by (cases "embed_all embed_text url chunks")
  from Cons.IH[OF rest] have ih: "list_all (\<lambda>ev. \<not> is_commit ev) evs1"
    "r1 = None \<or> r1 = Some TypeError" by simp_all
  from Cons.prems rest ih show ?case
    by (auto simp: store_chunk_def is_commit_def split: option.splits if_splits)
qed

lemma process_article_result:
  "\<exists>evs r. process_article fmt embed_text article = Some (evs, r)
     \<and> list_all (\<lambda>ev. \<not> is_commit ev) evs
     \<and> (r = None \<or> r = Some TypeError \<or> r = Some AttributeError)"
proof (cases "\<exists>kv. article = JDict kv")
  case False
  then show ?thesis by (cases article) (simp_all add: process_article_def)
next
  case True
  then obtain kv where a: "article = JDict kv" by blast
  define content where "content = py_or (lookup_default kv ''content'' (JStr ''''))
                               (lookup_default kv ''description'' (JStr ''''))"
  show ?thesis
  proof (cases "py_truthy content")
    case False
    then show ?thesis
      by (simp add: a process_article_def content_def[symmetric] Let_def is_commit_def)
  next
    case True
    show ?thesis
    proof (cases "py_get (lookup_default kv ''source'' (JDict [])) ''name'' JNull")
      case (Inl e)
      then have "e = AttributeError"
        by (cases "lookup_default kv ''source'' (JDict [])") (simp_all add: py_get_def)
      with Inl True show ?thesis
        by (simp add: a process_article_def content_def[symmetric] Let_def chunk_text_default)
    next
      case (Inr src)
      with True show ?thesis
        by (auto simp: a process_article_def content_def[symmetric] Let_def chunk_text_default
                       is_commit_def
                 split: prod.splits option.splits dest!: embed_all_events)
    qed
  qed
qed

lemma news_handle_decode_error:
  assumes "payload_value msg = Inl e" "decode_error e"
  shows "news_handle fmt embed_text msg = Some ([LogErrorDecode (topic msg), Commit msg], Normal)"
  using assms by (auto simp: news_handle_def decode_error_def)

lemma news_run_decode_error:
  assumes "payload_value msg = Inl e" "decode_error e"
  shows "news_run fmt embed_text (Msg msg # ps) =
           map_option (\<lambda>(evs, out). (LogErrorDecode (topic msg) # Commit msg # evs, out))
             (news_run fmt embed_text ps)"
  by (simp add: news_handle_decode_error[OF assms])

lemma news_handle_decoded:
  assumes "payload_value msg = Inr article"
  shows "\<exists>evs r. process_article fmt embed_text article = Some (evs, r)
           \<and> list_all (\<lambda>ev. \<not> is_commit ev) evs
           \<and> news_handle fmt embed_text msg =
                Some (case r of None \<Rightarrow> (evs @ [Commit msg], Normal) | Some e \<Rightarrow> (evs, Raised e))"
proof -
  from process_article_result[of fmt embed_text article]
  obtain evs r where p: "process_article fmt embed_text article = Some (evs, r)"
    and nc: "list_all (\<lambda>ev. \<not> is_commit ev) evs"
    and r: "r = None \<or> r = Some TypeError \<or> r = Some AttributeError"
    by blast
  from r assms p have "news_handle fmt embed_text msg =
                Some (case r of None \<Rightarrow> (evs @ [Commit msg], Normal) | Some e \<Rightarrow> (evs, Raised e))"
    by (auto simp: news_handle_def)
  with p nc show ?thesis by blast
qed

subsection \<open>Commit order\<close>

text \<open>
  What the loops do with the two exceptions that the \<^verbatim>\<open>except\<close> clause names, and with a
  message that decodes.  A message whose decoding raises \<^verbatim>\<open>UnicodeDecodeError\<close> or
  \<^verbatim>\<open>JSONDecodeError\<close> is logged and committed, and the loop goes on with the next poll.
  For a message that decodes, the commit is the last call of the iteration and is made only
  when the processing of the message returned: in the markets consumer after normalisation
  and, for a record, the upsert; in the news consumer after \<^verbatim>\<open>process_article\<close>, which
  always returns or raises.  When processing raises, nothing is committed.
\<close>

lemma commit_order:
  "(\<forall>e. payload_value msg = Inl e \<and> decode_error e \<longrightarrow>
       markets_handle msg tbl = (tbl, [LogErrorDecode (topic msg), Commit msg], Normal)
     \<and> markets_run (Msg msg # ps) tbl =
           (case markets_run ps tbl of
              (tbl', evs, out) \<Rightarrow> (tbl', LogErrorDecode (topic msg) # Commit msg # evs, out))
     \<and> news_handle fmt embed_text msg = Some ([LogErrorDecode (topic msg), Commit msg], Normal)
     \<and> news_run fmt embed_text (Msg msg # ps) =
           map_option (\<lambda>(evs, out). (LogErrorDecode (topic msg) # Commit msg # evs, out))
             (news_run fmt embed_text ps))
   \<and> (\<forall>raw. payload_value msg = Inr raw \<longrightarrow>
       ((\<exists>e. normalize_for (topic msg) raw = Inl e \<and> markets_handle msg tbl = (tbl, [], Raised e))
        \<or> (\<exists>r pre. (\<exists>w. normalize_for (topic msg) raw = Inr (r, w))
              \<and> markets_handle msg tbl = (tbl, pre @ [Commit msg], Normal)
              \<and> list_all (\<lambda>ev. \<not> is_commit ev) pre
              \<and> (\<forall>n. r = Some n \<longrightarrow> LogDebugUpsert (platform n) (external_id n) \<in> set pre)))
     \<and> (\<exists>evs r. process_article fmt embed_text raw = Some (evs, r)
           \<and> list_all (\<lambda>ev. \<not> is_commit ev) evs
           \<and> news_handle fmt embed_text msg =
                Some (case r of None \<Rightarrow> (evs @ [Commit msg], Normal)
                              | Some e \<Rightarrow> (evs, Raised e))))"
proof (intro conjI allI impI)
  fix e assume h: "payload_value msg = Inl e \<and> decode_error e"
  then have p: "payload_value msg = Inl e" and d: "decode_error e" by simp_all
  show "markets_handle msg tbl = (tbl, [LogErrorDecode (topic msg), Commit msg], Normal)"
    by (rule markets_handle_decode_error[OF p d])
  show "markets_run (Msg msg # ps) tbl =
           (case markets_run ps tbl of
              (tbl', evs, out) \<Rightarrow> (tbl', LogErrorDecode (topic msg) # Commit msg # evs, out))"
    by (rule markets_run_decode_error[OF p d])
  show "news_handle fmt embed_text msg = Some ([LogErrorDecode (topic msg), Commit msg], Normal)"
    by (rule news_handle_decode_error[OF p d])
  show "news_run fmt embed_text (Msg msg # ps) =
           map_option (\<lambda>(evs, out). (LogErrorDecode (topic msg) # Commit msg # evs, out))
             (news_run fmt embed_text ps)"
    by (rule news_run_decode_error[OF p d])
next
  fix raw assume p: "payload_value msg = Inr raw"
  show "(\<exists>e. normalize_for (topic msg) raw = Inl e \<and> markets_handle msg tbl = (tbl, [], Raised e))
        \<or> (\<exists>r pre. (\<exists>w. normalize_for (topic msg) raw = Inr (r, w))
              \<and> markets_handle msg tbl = (tbl, pre @ [Commit msg], Normal)
              \<and> list_all (\<lambda>ev. \<not> is_commit ev) pre
              \<and> (\<forall>n. r = Some n \<longrightarrow> LogDebugUpsert (platform n) (external_id n) \<in> set pre))"
    by (rule markets_handle_decoded[OF p])
  show "\<exists>evs r. process_article fmt embed_text raw = Some (evs, r)
           \<and> list_all (\<lambda>ev. \<not> is_commit ev) evs
           \<and> news_handle fmt embed_text msg =
                Some (case r of None \<Rightarrow> (evs @ [Commit msg], Normal)
                              | Some e \<Rightarrow> (evs, Raised e))"
    by (rule news_handle_decoded[OF p])
qed

text \<open>
  A run of the markets consumer over a message that is not JSON followed by a Kalshi
  market: the first is logged and committed, the second is normalised, passed to the upsert
  and committed after it.
\<close>

lemma markets_run_example:
  "markets_run
     [Msg \<lparr> topic = ''kalshi.markets'', partition = 0, offset = 7,
            payload_value = Inl JSONDecodeError \<rparr>,
      Msg \<lparr> topic = ''kalshi.markets'', partition = 0, offset = 8,
            payload_value = Inr (JDict [(''ticker'', JStr ''A'')]) \<rparr>] [] =
     ([], [LogErrorDecode ''kalshi.markets'',
           Commit \<lparr> topic = ''kalshi.markets'', partition = 0, offset = 7,
                    payload_value = Inl JSONDecodeError \<rparr>,
           LogDebugUpsert ''kalshi'' (JStr ''A''),
           Commit \<lparr> topic = ''kalshi.markets'', partition = 0, offset = 8,
                    payload_value = Inr (JDict [(''ticker'', JStr ''A'')]) \<rparr>,
           CloseConsumer], Normal)"
proof -
  have nl: "\<not> DBL_LIMIT \<le> 0" using DBL_LIMIT_big by simp
  show ?thesis
    by (simp add: markets_handle_def normalize_for_def warned_def normalize_kalshi_dict
          lookup_default_def py_add_def py_truediv_200_def nl try_except_None_def
          upsert_market_def)
qed

subsection \<open>Messages that cannot be decoded (C7)\<close>

text \<open>
  C7.  The claim is that a message whose payload cannot be decoded as UTF-8 JSON is
  skipped: committed, with the loop going on to the next message.  The \<^verbatim>\<open>except\<close> clause
  around the decoding names \<^verbatim>\<open>JSONDecodeError\<close> and \<^verbatim>\<open>UnicodeDecodeError\<close> only, so the
  code does this for those two exceptions and for no other.  A message of 200000 opening
  brackets makes \<^verbatim>\<open>json.loads\<close> raise \<^verbatim>\<open>RecursionError\<close>, and a message that is an
  integer literal of 5000 digits makes it raise \<^verbatim>\<open>ValueError\<close>.  In both consumers the
  exception leaves the loop: the message is not logged as undecodable and not committed,
  the message after it is not handled, and \<^verbatim>\<open>run\<close> closes the consumer and raises.  The
  same poll results with a message that raises \<^verbatim>\<open>JSONDecodeError\<close> in the place of the
  first are both committed.
\<close>

theorem undecodable_message_not_skipped:
  "markets_run
     [Msg \<lparr> topic = ''kalshi.markets'', partition = 0, offset = 7,
            payload_value = Inl RecursionError \<rparr>,
      Msg \<lparr> topic = ''kalshi.markets'', partition = 0, offset = 8,
            payload_value = Inr (JDict [(''ticker'', JStr ''A'')]) \<rparr>] [] =
     ([], [CloseConsumer], Raised RecursionError)
   \<and> markets_run
     [Msg \<lparr> topic = ''kalshi.markets'', partition = 0, offset = 7,
            payload_value = Inl ValueError \<rparr>,
      Msg \<lparr> topic = ''kalshi.markets'', partition = 0, offset = 8,
            payload_value = Inr (JDict [(''ticker'', JStr ''A'')]) \<rparr>] [] =
     ([], [CloseConsumer], Raised ValueError)
   \<and> news_run (\<lambda>v. ''?'') (\<lambda>s. None)
     [Msg \<lparr> topic = ''news.feed'', partition = 0, offset = 7,
            payload_value = Inl RecursionError \<rparr>,
      Msg \<lparr> topic = ''news.feed'', partition = 0, offset = 8,
            payload_value = Inr (JDict []) \<rparr>] =
     Some ([CloseConsumer], Raised RecursionError)
   \<and> news_run (\<lambda>v. ''?'') (\<lambda>s. None)
     [Msg \<lparr> topic = ''news.feed'', partition = 0, offset = 7,
            payload_value = Inl ValueError \<rparr>,
      Msg \<lparr> topic = ''news.feed'', partition = 0, offset = 8,
            payload_value = Inr (JDict []) \<rparr>] =
     Some ([CloseConsumer], Raised ValueError)
   \<and> markets_run
     [Msg \<lparr> topic = ''kalshi.markets'', partition = 0, offset = 7,
            payload_value = Inl JSONDecodeError \<rparr>,
      Msg \<lparr> topic = ''kalshi.markets'', partition = 0, offset = 8,
            payload_value = Inr (JDict [(''ticker'', JStr ''A'')]) \<rparr>] [] =
     ([], [LogErrorDecode ''kalshi.markets'',
           Commit \<lparr> topic = ''kalshi.markets'', partition = 0, offset = 7,
                    payload_value = Inl JSONDecodeError \<rparr>,
           LogDebugUpsert ''kalshi'' (JStr ''A''),
           Commit \<lparr> topic = ''kalshi.markets'', partition = 0, offset = 8,
                    payload_value = Inr (JDict [(''ticker'', JStr ''A'')]) \<rparr>,
           CloseConsumer], Normal)
   \<and> news_run (\<lambda>v. ''?'') (\<lambda>s. None)
     [Msg \<lparr> topic = ''news.feed'', partition = 0, offset = 7,
            payload_value = Inl JSONDecodeError \<rparr>,
      Msg \<lparr> topic = ''news.feed'', partition = 0, offset = 8,
            payload_value = Inr (JDict []) \<rparr>] =
     Some ([LogErrorDecode ''news.feed'',
            Commit \<lparr> topic = ''news.feed'', partition = 0, offset = 7,
                     payload_value = Inl JSONDecodeError \<rparr>,
            LogDebugNoContent (JStr []),
            Commit \<lparr> topic = ''news.feed'', partition = 0, offset = 8,
                     payload_value = Inr (JDict []) \<rparr>,
            CloseConsumer], Normal)"
proof (intro conjI)
  have nl: "\<not> DBL_LIMIT \<le> 0" using DBL_LIMIT_big by simp
  show "markets_run
     [Msg \<lparr> topic = ''kalshi.markets'', partition = 0, offset = 7,
            payload_value = Inl JSONDecodeError \<rparr>,
      Msg \<lparr> topic = ''kalshi.markets'', partition = 0, offset = 8,
            payload_value = Inr (JDict [(''ticker'', JStr ''A'')]) \<rparr>] [] =
     ([], [LogErrorDecode ''kalshi.markets'',
           Commit \<lparr> topic = ''kalshi.markets'', partition = 0, offset = 7,
                    payload_value = Inl JSONDecodeError \<rparr>,
           LogDebugUpsert ''kalshi'' (JStr ''A''),
           Commit \<lparr> topic = ''kalshi.markets'', partition = 0, offset = 8,
                    payload_value = Inr (JDict [(''ticker'', JStr ''A'')]) \<rparr>,
           CloseConsumer], Normal)"
    by (simp add: markets_handle_def normalize_for_def warned_def normalize_kalshi_dict
          lookup_default_def py_add_def py_truediv_200_def nl try_except_None_def
          upsert_market_def)
qed (simp_all add: markets_handle_def news_handle_def process_article_def lookup_default_def
       py_or_def)
section \<open>The upsert and the edge detector\<close>

subsection \<open>\<^verbatim>\<open>upsert_market\<close> (C1)\<close>

lemma upsert_market_table: "fst (upsert_market n tbl) = tbl"
  by (simp add: upsert_market_def)

lemma DBL_LIMIT_not_le_0: "\<not> DBL_LIMIT \<le> 0"
  using DBL_LIMIT_big by simp

text \<open>
  C1 at a concrete market.  The Kalshi payload with ticker \<^verbatim>\<open>T\<close> is normalised to a
  record; after two calls of \<^verbatim>\<open>upsert_market\<close> with it on the empty table the table is
  still empty, so no row is keyed by \<^verbatim>\<open>T\<close>: the function logs the record and writes
  nothing, against its docstring ("Insert or update a market record in PostgreSQL").
\<close>

theorem upsert_market_writes_no_row:
  "normalize_kalshi (JDict [(''ticker'', JStr ''T'')]) =
     Inr (Some \<lparr> platform = ''kalshi'', external_id = JStr ''T'', title = JStr '''',
                 category = JStr '''', close_time = JNull, yes_price = Fin 0,
                 volume = JInt 0, is_open = JBool False \<rparr>)
   \<and> fst (upsert_market
            \<lparr> platform = ''kalshi'', external_id = JStr ''T'', title = JStr '''',
              category = JStr '''', close_time = JNull, yes_price = Fin 0,
              volume = JInt 0, is_open = JBool False \<rparr>
            (fst (upsert_market
                   \<lparr> platform = ''kalshi'', external_id = JStr ''T'', title = JStr '''',
                     category = JStr '''', close_time = JNull, yes_price = Fin 0,
                     volume = JInt 0, is_open = JBool False \<rparr> []))) = []
   \<and> rows_keyed (JStr ''T'')
         (fst (upsert_market
            \<lparr> platform = ''kalshi'', external_id = JStr ''T'', title = JStr '''',
              category = JStr '''', close_time = JNull, yes_price = Fin 0,
              volume = JInt 0, is_open = JBool False \<rparr>
            (fst (upsert_market
                   \<lparr> platform = ''kalshi'', external_id = JStr ''T'', title = JStr '''',
                     category = JStr '''', close_time = JNull, yes_price = Fin 0,
                     volume = JInt 0, is_open = JBool False \<rparr> [])))) = []"
  by (simp add: normalize_kalshi_dict lookup_default_def py_add_def py_truediv_200_def
        DBL_LIMIT_not_le_0 try_except_None_def
        upsert_market_table rows_keyed_def)

subsection \<open>The floor of the edge detector (C2)\<close>

text \<open>
  C2.  For a market probability \<open>p\<close> and a model probability \<open>q\<close> in \<open>[0, 1]\<close> the detector
  computes \<open>edge_magnitude = q - p\<close>.  An Edge row is created if and only if
  \<open>\<bar>q - p\<bar> \<ge> 0.05\<close>, the boundary included; its direction is YES when \<open>q - p > 0\<close> and NO
  otherwise, and \<open>alert_sent\<close> is false.  Below the floor nothing is created and the table
  is returned as it was; with no earlier detection of the same triple in the table, the
  row is appended.
\<close>

theorem detect_edge_floor:
  assumes "0 \<le> p" "p \<le> 1" "0 \<le> q" "q \<le> 1"
  shows "(detect_edge mid p q \<noteq> None \<longleftrightarrow> 5 / 100 \<le> \<bar>q - p\<bar>)
       \<and> (\<forall>e. detect_edge mid p q = Some e \<longrightarrow>
              market_id e = mid \<and> market_probability e = p \<and> model_probability e = q
              \<and> edge_magnitude e = q - p
              \<and> direction e = (if 0 < q - p then ''YES'' else ''NO'')
              \<and> \<not> alert_sent e)
       \<and> (\<bar>q - p\<bar> < 5 / 100 \<longrightarrow>
              detect_edge mid p q = None \<and> record_edge edges mid p q = edges)
       \<and> (5 / 100 \<le> \<bar>q - p\<bar> \<and> \<not> list_ex (\<lambda>e. market_id e = mid \<and> market_probability e = p
                                                 \<and> model_probability e = q) edges \<longrightarrow>
              (\<exists>e. detect_edge mid p q = Some e \<and> record_edge edges mid p q = edges @ [e]))"
  by (auto simp: detect_edge_def record_edge_def EDGE_FLOOR_def alert_sent_default_def
                 same_detection_def Let_def list_ex_iff)

theorem detect_edge_floor_witness:
  "(0::real) \<le> 45 / 100 \<and> (45 / 100 :: real) \<le> 1 \<and> (0::real) \<le> 50 / 100 \<and> (50 / 100 :: real) \<le> 1
   \<and> detect_edge 1 (45 / 100) (50 / 100) =
         Some \<lparr> market_id = 1, market_probability = 45 / 100, model_probability = 50 / 100,
                edge_magnitude = 5 / 100, direction = ''YES'', alert_sent = False \<rparr>
   \<and> detect_edge 1 (45 / 100) (48 / 100) = None"
proof -
  have a: "(0::real) \<le> 45 / 100" "(45 / 100 :: real) \<le> 1" "(0::real) \<le> 50 / 100"
    "(50 / 100 :: real) \<le> 1" "(0::real) \<le> 48 / 100" "(48 / 100 :: real) \<le> 1"
    by simp_all
  from detect_edge_floor[OF a(1,2,3,4), of 1 "[]"]
  obtain e where e: "detect_edge 1 (45 / 100) (50 / 100) = Some e"
    and f: "market_id e = 1" "market_probability e = 45 / 100" "model_probability e = 50 / 100"
      "edge_magnitude e = 50 / 100 - 45 / 100" "direction e = ''YES''" "\<not> alert_sent e"
    by (auto split: if_splits)
  from f have "e = \<lparr> market_id = 1, market_probability = 45 / 100, model_probability = 50 / 100,
                edge_magnitude = 5 / 100, direction = ''YES'', alert_sent = False \<rparr>"
    by (cases e) simp
  moreover from detect_edge_floor[OF a(1,2,5,6), of 1 "[]"]
  have "detect_edge 1 (45 / 100) (48 / 100) = None" by simp
  ultimately show ?thesis using e by simp
qed

section \<open>The series cache\<close>

lemma get_category_cases:
  assumes "extract_series_ticker ev = Inr s"
  shows "get_category http cache ev =
           (if s = [] then Inr (JStr ''(none)'', cache, [])
            else case cache s of
                   Some cat \<Rightarrow> Inr (cat, cache, [])
                 | None \<Rightarrow> Inr (category_of_reply (http s),
                                cache(s \<mapsto> category_of_reply (http s)), [s]))"
  using assms by (simp add: get_category_def Let_def split: option.splits)

lemma get_category_raises:
  "extract_series_ticker ev = Inl e \<Longrightarrow> get_category http cache ev = Inl e"
  by (simp add: get_category_def)

lemma get_category_mono:
  assumes "get_category http cache ev = Inr (cat, cache', reqs)"
  shows "cache \<subseteq>\<^sub>m cache'"
proof (cases "extract_series_ticker ev")
  case (Inl e)
  with assms show ?thesis by (simp add: get_category_raises)
next
  case (Inr s)
  with assms show ?thesis
    by (auto simp: get_category_cases map_le_def split: if_splits option.splits)
qed

lemma get_category_hit:
  assumes "extract_series_ticker ev = Inr s" "s \<noteq> []" "cache s = Some v"
  shows "get_category http cache ev = Inr (v, cache, [])"
  using assms by (simp add: get_category_cases)

lemma get_category_resolves:
  assumes "extract_series_ticker ev = Inr s" "s \<noteq> []"
  shows "\<exists>cat cache' reqs. get_category http cache ev = Inr (cat, cache', reqs)
           \<and> cache' s = Some cat \<and> (reqs = (if cache s = None then [s] else []))"
  using assms by (auto simp: get_category_cases split: option.splits)

lemma get_categories_length: "length (get_categories cache calls) \<le> length calls"
  by (induction calls arbitrary: cache) (auto split: sum.splits)

lemma get_categories_hit:
  assumes "cache s = Some v" "s \<noteq> []" "k < length (get_categories cache calls)"
    and "extract_series_ticker (snd (calls ! k)) = Inr s"
  shows "fst (get_categories cache calls ! k) = v
       \<and> snd (snd (get_categories cache calls ! k)) = []
       \<and> fst (snd (get_categories cache calls ! k)) s = Some v"
  using assms
proof (induction calls arbitrary: cache k)
  case Nil
  then show ?case by simp
next
  case (Cons c calls)
  obtain http ev where c: "c = (http, ev)" by (cases c)
  show ?case
  proof (cases "get_category http cache ev")
    case (Inl e)
    with Cons.prems c show ?thesis by simp
  next
    case (Inr res)
    obtain cat cache' reqs where res: "res = (cat, cache', reqs)" by (cases res)
    from get_category_mono[of http cache ev cat cache' reqs] Inr res
    have mono: "cache \<subseteq>\<^sub>m cache'" by simp
    with Cons.prems(1) have c': "cache' s = Some v"
      by (metis domI map_le_def)
    show ?thesis
    proof (cases k)
      case 0
      with Cons.prems c have "extract_series_ticker ev = Inr s" by simp
      then have "get_category http cache ev = Inr (v, cache, [])"
        using Cons.prems(1,2) by (simp add: get_category_cases)
      with 0 c Cons.prems(1) show ?thesis by simp
    next
      case (Suc k')
      with Cons.prems c Inr res have "k' < length (get_categories cache' calls)"
        "extract_series_ticker (snd (calls ! k')) = Inr s" by simp_all
      from Cons.IH[OF c' Cons.prems(2) this] Suc c Inr res show ?thesis by simp
    qed
  qed
qed

lemma get_categories_mono:
  assumes "k < length (get_categories cache calls)"
  shows "cache \<subseteq>\<^sub>m fst (snd (get_categories cache calls ! k))"
  using assms
proof (induction calls arbitrary: cache k)
  case Nil
  then show ?case by simp
next
  case (Cons c calls)
  obtain http ev where c: "c = (http, ev)" by (cases c)
  show ?case
  proof (cases "get_category http cache ev")
    case (Inl e)
    with Cons.prems c show ?thesis by simp
  next
    case (Inr res)
    obtain cat cache' reqs where res: "res = (cat, cache', reqs)" by (cases res)
    from get_category_mono[of http cache ev cat cache' reqs] Inr res
    have mono: "cache \<subseteq>\<^sub>m cache'" by simp
    show ?thesis
    proof (cases k)
      case 0
      with c Inr res mono show ?thesis by simp
    next
      case (Suc k')
      with Cons.prems c Inr res have "k' < length (get_categories cache' calls)" by simp
      from Cons.IH[OF this] have "cache' \<subseteq>\<^sub>m fst (snd (get_categories cache' calls ! k'))" .
      with mono Suc c Inr res show ?thesis
        by (simp add: map_le_trans)
    qed
  qed
qed

lemma get_categories_later:
  assumes "i < j" "j < length (get_categories cache calls)"
    and "extract_series_ticker (snd (calls ! i)) = Inr s"
    and "extract_series_ticker (snd (calls ! j)) = Inr s" "s \<noteq> []"
  shows "fst (get_categories cache calls ! j) = fst (get_categories cache calls ! i)
       \<and> snd (snd (get_categories cache calls ! j)) = []
       \<and> fst (snd (get_categories cache calls ! i)) \<subseteq>\<^sub>m fst (snd (get_categories cache calls ! j))"
  using assms
proof (induction calls arbitrary: cache i j)
  case Nil
  then show ?case by simp
next
  case (Cons c calls)
  obtain http ev where c: "c = (http, ev)" by (cases c)
  show ?case
  proof (cases "get_category http cache ev")
    case (Inl e)
    with Cons.prems c show ?thesis by simp
  next
    case (Inr res)
    obtain cat cache' reqs where res: "res = (cat, cache', reqs)" by (cases res)
    from Cons.prems(1) obtain j' where j: "j = Suc j'" by (cases j) simp_all
    with Cons.prems c Inr res have j': "j' < length (get_categories cache' calls)"
      "extract_series_ticker (snd (calls ! j')) = Inr s" by simp_all
    show ?thesis
    proof (cases i)
      case 0
      with Cons.prems c have ev: "extract_series_ticker ev = Inr s" by simp
      from get_category_resolves[OF ev Cons.prems(5), of http cache] Inr res
      have c': "cache' s = Some cat" by simp
      from get_categories_hit[OF c' Cons.prems(5) j'] get_categories_mono[OF j'(1)]
      show ?thesis using 0 j c Inr res by simp
    next
      case (Suc i')
      with Cons.prems j c have "i' < j'" "extract_series_ticker (snd (calls ! i')) = Inr s"
        by simp_all
      from Cons.IH[OF this(1) j'(1) this(2) j'(2) Cons.prems(5)] Suc j c Inr res
      show ?thesis by simp
    qed
  qed
qed

lemma extract_series_ticker_example:
  "extract_series_ticker (JStr ''KXFED-25DEC'') = Inr ''KXFED''"
  by (simp add: extract_series_ticker_def date_part_def py_isdigit_def Let_def)

subsection \<open>The cache is never invalidated (C9)\<close>

text \<open>
  C9.  A call of \<^verbatim>\<open>get_category\<close> never removes or overwrites an entry of the cache.
  When the series ticker of the event ticker is in the cache, the call returns the cached
  category and makes no HTTP request; a call with a non-empty series ticker leaves the
  ticker in the cache, and makes one request exactly when it was not there.  Hence in any
  sequence of calls, a later call with the same series ticker as an earlier one returns the
  same category without a request, whatever the endpoint would answer by then.
\<close>

theorem series_cache_never_invalidated:
  "(\<forall>cat cache' reqs. get_category http cache ev = Inr (cat, cache', reqs) \<longrightarrow> cache \<subseteq>\<^sub>m cache')
   \<and> (\<forall>s v. extract_series_ticker ev = Inr s \<and> s \<noteq> [] \<and> cache s = Some v \<longrightarrow>
          get_category http cache ev = Inr (v, cache, []))
   \<and> (\<forall>s. extract_series_ticker ev = Inr s \<and> s \<noteq> [] \<longrightarrow>
          (\<exists>cat cache' reqs. get_category http cache ev = Inr (cat, cache', reqs)
             \<and> cache' s = Some cat \<and> reqs = (if cache s = None then [s] else [])))
   \<and> (\<forall>calls i j s. i < j \<and> j < length (get_categories cache calls)
          \<and> extract_series_ticker (snd (calls ! i)) = Inr s
          \<and> extract_series_ticker (snd (calls ! j)) = Inr s \<and> s \<noteq> [] \<longrightarrow>
          fst (get_categories cache calls ! j) = fst (get_categories cache calls ! i)
          \<and> snd (snd (get_categories cache calls ! j)) = []
          \<and> fst (snd (get_categories cache calls ! i))
               \<subseteq>\<^sub>m fst (snd (get_categories cache calls ! j)))"
proof (intro conjI allI impI)
  fix cat cache' reqs
  assume "get_category http cache ev = Inr (cat, cache', reqs)"
  then show "cache \<subseteq>\<^sub>m cache'" by (rule get_category_mono)
next
  fix s v
  assume "extract_series_ticker ev = Inr s \<and> s \<noteq> [] \<and> cache s = Some v"
  then show "get_category http cache ev = Inr (v, cache, [])"
    by (simp add: get_category_cases)
next
  fix s
  assume "extract_series_ticker ev = Inr s \<and> s \<noteq> []"
  then show "\<exists>cat cache' reqs. get_category http cache ev = Inr (cat, cache', reqs)
             \<and> cache' s = Some cat \<and> reqs = (if cache s = None then [s] else [])"
    using get_category_resolves by blast
next
  fix calls i j s
  assume h: "i < j \<and> j < length (get_categories cache calls)
          \<and> extract_series_ticker (snd (calls ! i)) = Inr s
          \<and> extract_series_ticker (snd (calls ! j)) = Inr s \<and> s \<noteq> []"
  then have h1: "i < j" and h2: "j < length (get_categories cache calls)"
    and h3: "extract_series_ticker (snd (calls ! i)) = Inr s"
    and h4: "extract_series_ticker (snd (calls ! j)) = Inr s" and h5: "s \<noteq> []"
    by simp_all
  have r: "fst (get_categories cache calls ! j) = fst (get_categories cache calls ! i)
       \<and> snd (snd (get_categories cache calls ! j)) = []
       \<and> fst (snd (get_categories cache calls ! i)) \<subseteq>\<^sub>m fst (snd (get_categories cache calls ! j))"
    by (rule get_categories_later[OF h1 h2 h3 h4 h5])
  from r show "fst (get_categories cache calls ! j) = fst (get_categories cache calls ! i)" by simp
  from r show "snd (snd (get_categories cache calls ! j)) = []" by simp
  from r show "fst (snd (get_categories cache calls ! i))
               \<subseteq>\<^sub>m fst (snd (get_categories cache calls ! j))" by simp
qed

theorem series_cache_never_invalidated_witness:
  "extract_series_ticker (JStr ''KXFED-25DEC'') = Inr ''KXFED'' \<and> ''KXFED'' \<noteq> []
   \<and> [''KXFED'' \<mapsto> JStr ''Economics''] ''KXFED'' = Some (JStr ''Economics'')
   \<and> get_category (\<lambda>s. RequestFails) [''KXFED'' \<mapsto> JStr ''Economics''] (JStr ''KXFED-25DEC'')
       = Inr (JStr ''Economics'', [''KXFED'' \<mapsto> JStr ''Economics''], [])"
  using series_cache_never_invalidated
          [of "\<lambda>s. RequestFails" "[''KXFED'' \<mapsto> JStr ''Economics'']" "JStr ''KXFED-25DEC''"]
        extract_series_ticker_example
  by simp


section \<open>The producers\<close>


lemma py_len_iter: "py_len v = Inr n \<Longrightarrow> \<exists>ms. py_iter v = Inr ms \<and> length ms = n"
  by (cases v) (auto simp: py_len_def py_iter_def)

subsection \<open>The keys\<close>




subsection \<open>The loops over a batch\<close>







subsection \<open>The poll cycles\<close>
















subsection \<open>Flush before sleep (C8)\<close>



end
